theory Spec2Isabelle
  imports Main "HOL-Library.Word"
begin

unbundle bit_operations_syntax

section \<open>Vulkan types and constants used by VulkanCommandBuffer.cpp\<close>

text \<open>
  The flag types of the Vulkan API are 32-bit unsigned integers (\<open>VkFlags\<close>), handles are
  64-bit values. The enumerators below carry the values of \<open>vulkan_core.h\<close>.
\<close>

type_synonym VkFlags = "32 word"
type_synonym VkAccessFlags = VkFlags
type_synonym VkPipelineStageFlags = VkFlags
type_synonym VkImageAspectFlags = VkFlags
type_synonym VkDependencyFlags = VkFlags
type_synonym VkCommandBuffer = "64 word"
type_synonym VkImage = "64 word"

definition VK_NULL_HANDLE :: "64 word" where
  "VK_NULL_HANDLE = 0"

definition VK_QUEUE_FAMILY_IGNORED :: "32 word" where
  "VK_QUEUE_FAMILY_IGNORED = NOT 0"

definition VK_STRUCTURE_TYPE_IMAGE_MEMORY_BARRIER :: "32 word" where
  "VK_STRUCTURE_TYPE_IMAGE_MEMORY_BARRIER = 45"

subsection \<open>VkAccessFlagBits\<close>

definition VK_ACCESS_INDIRECT_COMMAND_READ_BIT :: VkAccessFlags where
  "VK_ACCESS_INDIRECT_COMMAND_READ_BIT = 0x00000001"
definition VK_ACCESS_INDEX_READ_BIT :: VkAccessFlags where
  "VK_ACCESS_INDEX_READ_BIT = 0x00000002"
definition VK_ACCESS_VERTEX_ATTRIBUTE_READ_BIT :: VkAccessFlags where
  "VK_ACCESS_VERTEX_ATTRIBUTE_READ_BIT = 0x00000004"
definition VK_ACCESS_UNIFORM_READ_BIT :: VkAccessFlags where
  "VK_ACCESS_UNIFORM_READ_BIT = 0x00000008"
definition VK_ACCESS_INPUT_ATTACHMENT_READ_BIT :: VkAccessFlags where
  "VK_ACCESS_INPUT_ATTACHMENT_READ_BIT = 0x00000010"
definition VK_ACCESS_SHADER_READ_BIT :: VkAccessFlags where
  "VK_ACCESS_SHADER_READ_BIT = 0x00000020"
definition VK_ACCESS_SHADER_WRITE_BIT :: VkAccessFlags where
  "VK_ACCESS_SHADER_WRITE_BIT = 0x00000040"
definition VK_ACCESS_COLOR_ATTACHMENT_READ_BIT :: VkAccessFlags where
  "VK_ACCESS_COLOR_ATTACHMENT_READ_BIT = 0x00000080"
definition VK_ACCESS_COLOR_ATTACHMENT_WRITE_BIT :: VkAccessFlags where
  "VK_ACCESS_COLOR_ATTACHMENT_WRITE_BIT = 0x00000100"
definition VK_ACCESS_DEPTH_STENCIL_ATTACHMENT_READ_BIT :: VkAccessFlags where
  "VK_ACCESS_DEPTH_STENCIL_ATTACHMENT_READ_BIT = 0x00000200"
definition VK_ACCESS_DEPTH_STENCIL_ATTACHMENT_WRITE_BIT :: VkAccessFlags where
  "VK_ACCESS_DEPTH_STENCIL_ATTACHMENT_WRITE_BIT = 0x00000400"
definition VK_ACCESS_TRANSFER_READ_BIT :: VkAccessFlags where
  "VK_ACCESS_TRANSFER_READ_BIT = 0x00000800"
definition VK_ACCESS_TRANSFER_WRITE_BIT :: VkAccessFlags where
  "VK_ACCESS_TRANSFER_WRITE_BIT = 0x00001000"
definition VK_ACCESS_HOST_READ_BIT :: VkAccessFlags where
  "VK_ACCESS_HOST_READ_BIT = 0x00002000"
definition VK_ACCESS_HOST_WRITE_BIT :: VkAccessFlags where
  "VK_ACCESS_HOST_WRITE_BIT = 0x00004000"
definition VK_ACCESS_MEMORY_READ_BIT :: VkAccessFlags where
  "VK_ACCESS_MEMORY_READ_BIT = 0x00008000"
definition VK_ACCESS_MEMORY_WRITE_BIT :: VkAccessFlags where
  "VK_ACCESS_MEMORY_WRITE_BIT = 0x00010000"

lemmas VkAccessFlagBits_defs =
  VK_ACCESS_INDIRECT_COMMAND_READ_BIT_def VK_ACCESS_INDEX_READ_BIT_def
  VK_ACCESS_VERTEX_ATTRIBUTE_READ_BIT_def VK_ACCESS_UNIFORM_READ_BIT_def
  VK_ACCESS_INPUT_ATTACHMENT_READ_BIT_def VK_ACCESS_SHADER_READ_BIT_def
  VK_ACCESS_SHADER_WRITE_BIT_def VK_ACCESS_COLOR_ATTACHMENT_READ_BIT_def
  VK_ACCESS_COLOR_ATTACHMENT_WRITE_BIT_def VK_ACCESS_DEPTH_STENCIL_ATTACHMENT_READ_BIT_def
  VK_ACCESS_DEPTH_STENCIL_ATTACHMENT_WRITE_BIT_def VK_ACCESS_TRANSFER_READ_BIT_def
  VK_ACCESS_TRANSFER_WRITE_BIT_def VK_ACCESS_HOST_READ_BIT_def VK_ACCESS_HOST_WRITE_BIT_def
  VK_ACCESS_MEMORY_READ_BIT_def VK_ACCESS_MEMORY_WRITE_BIT_def

subsection \<open>VkPipelineStageFlagBits\<close>

definition VK_PIPELINE_STAGE_DRAW_INDIRECT_BIT :: VkPipelineStageFlags where
  "VK_PIPELINE_STAGE_DRAW_INDIRECT_BIT = 0x00000002"
definition VK_PIPELINE_STAGE_VERTEX_INPUT_BIT :: VkPipelineStageFlags where
  "VK_PIPELINE_STAGE_VERTEX_INPUT_BIT = 0x00000004"
definition VK_PIPELINE_STAGE_VERTEX_SHADER_BIT :: VkPipelineStageFlags where
  "VK_PIPELINE_STAGE_VERTEX_SHADER_BIT = 0x00000008"
definition VK_PIPELINE_STAGE_TESSELLATION_CONTROL_SHADER_BIT :: VkPipelineStageFlags where
  "VK_PIPELINE_STAGE_TESSELLATION_CONTROL_SHADER_BIT = 0x00000010"
definition VK_PIPELINE_STAGE_TESSELLATION_EVALUATION_SHADER_BIT :: VkPipelineStageFlags where
  "VK_PIPELINE_STAGE_TESSELLATION_EVALUATION_SHADER_BIT = 0x00000020"
definition VK_PIPELINE_STAGE_GEOMETRY_SHADER_BIT :: VkPipelineStageFlags where
  "VK_PIPELINE_STAGE_GEOMETRY_SHADER_BIT = 0x00000040"
definition VK_PIPELINE_STAGE_FRAGMENT_SHADER_BIT :: VkPipelineStageFlags where
  "VK_PIPELINE_STAGE_FRAGMENT_SHADER_BIT = 0x00000080"
definition VK_PIPELINE_STAGE_EARLY_FRAGMENT_TESTS_BIT :: VkPipelineStageFlags where
  "VK_PIPELINE_STAGE_EARLY_FRAGMENT_TESTS_BIT = 0x00000100"
definition VK_PIPELINE_STAGE_LATE_FRAGMENT_TESTS_BIT :: VkPipelineStageFlags where
  "VK_PIPELINE_STAGE_LATE_FRAGMENT_TESTS_BIT = 0x00000200"
definition VK_PIPELINE_STAGE_COLOR_ATTACHMENT_OUTPUT_BIT :: VkPipelineStageFlags where
  "VK_PIPELINE_STAGE_COLOR_ATTACHMENT_OUTPUT_BIT = 0x00000400"
definition VK_PIPELINE_STAGE_COMPUTE_SHADER_BIT :: VkPipelineStageFlags where
  "VK_PIPELINE_STAGE_COMPUTE_SHADER_BIT = 0x00000800"
definition VK_PIPELINE_STAGE_TRANSFER_BIT :: VkPipelineStageFlags where
  "VK_PIPELINE_STAGE_TRANSFER_BIT = 0x00001000"
definition VK_PIPELINE_STAGE_HOST_BIT :: VkPipelineStageFlags where
  "VK_PIPELINE_STAGE_HOST_BIT = 0x00004000"

lemmas VkPipelineStageFlagBits_defs =
  VK_PIPELINE_STAGE_DRAW_INDIRECT_BIT_def VK_PIPELINE_STAGE_VERTEX_INPUT_BIT_def
  VK_PIPELINE_STAGE_VERTEX_SHADER_BIT_def VK_PIPELINE_STAGE_TESSELLATION_CONTROL_SHADER_BIT_def
  VK_PIPELINE_STAGE_TESSELLATION_EVALUATION_SHADER_BIT_def
  VK_PIPELINE_STAGE_GEOMETRY_SHADER_BIT_def VK_PIPELINE_STAGE_FRAGMENT_SHADER_BIT_def
  VK_PIPELINE_STAGE_EARLY_FRAGMENT_TESTS_BIT_def VK_PIPELINE_STAGE_LATE_FRAGMENT_TESTS_BIT_def
  VK_PIPELINE_STAGE_COLOR_ATTACHMENT_OUTPUT_BIT_def VK_PIPELINE_STAGE_COMPUTE_SHADER_BIT_def
  VK_PIPELINE_STAGE_TRANSFER_BIT_def VK_PIPELINE_STAGE_HOST_BIT_def

subsection \<open>VkImageLayout\<close>

text \<open>
  The enumerators the two switches of \<open>TransitionImageLayout\<close> name, and
  \<open>VK_IMAGE_LAYOUT_SHARED_PRESENT_KHR\<close>, an enumerator of the same C enum that neither
  switch names: it takes the \<open>default\<close> branch.
\<close>

datatype VkImageLayout =
    VK_IMAGE_LAYOUT_UNDEFINED
  | VK_IMAGE_LAYOUT_GENERAL
  | VK_IMAGE_LAYOUT_COLOR_ATTACHMENT_OPTIMAL
  | VK_IMAGE_LAYOUT_DEPTH_STENCIL_ATTACHMENT_OPTIMAL
  | VK_IMAGE_LAYOUT_DEPTH_STENCIL_READ_ONLY_OPTIMAL
  | VK_IMAGE_LAYOUT_SHADER_READ_ONLY_OPTIMAL
  | VK_IMAGE_LAYOUT_TRANSFER_SRC_OPTIMAL
  | VK_IMAGE_LAYOUT_TRANSFER_DST_OPTIMAL
  | VK_IMAGE_LAYOUT_PREINITIALIZED
  | VK_IMAGE_LAYOUT_DEPTH_READ_ONLY_STENCIL_ATTACHMENT_OPTIMAL
  | VK_IMAGE_LAYOUT_DEPTH_ATTACHMENT_STENCIL_READ_ONLY_OPTIMAL
  | VK_IMAGE_LAYOUT_PRESENT_SRC_KHR
  | VK_IMAGE_LAYOUT_SHARED_PRESENT_KHR

subsection \<open>Structures\<close>

record VkImageSubresourceRange =
  aspectMask :: VkImageAspectFlags
  baseMipLevel :: "32 word"
  levelCount :: "32 word"
  baseArrayLayer :: "32 word"
  layerCount :: "32 word"

record VkImageMemoryBarrier =
  sType :: "32 word"
  pNext :: "64 word"
  srcAccessMask :: VkAccessFlags
  dstAccessMask :: VkAccessFlags
  oldLayout :: VkImageLayout
  newLayout :: VkImageLayout
  srcQueueFamilyIndex :: "32 word"
  dstQueueFamilyIndex :: "32 word"
  image :: VkImage
  subresourceRange :: VkImageSubresourceRange

text \<open>
  \<open>VkMemoryBarrier\<close> and \<open>VkBufferMemoryBarrier\<close> are never built by this file: the
  barrier command is given none of them.
\<close>

typedecl VkMemoryBarrier
typedecl VkBufferMemoryBarrier

section \<open>Contract violations\<close>

text \<open>
  A contract violation is the \<open>Inl\<close> result of the function that meets it: \<open>UNEXPECTED\<close>
  keeps its message, \<open>VERIFY_EXPR\<close> the text of the expression that failed.
\<close>

datatype error =
    Unexpected string
  | VerifyFailed string

text \<open>
  Modelled from the spec: the macro \<open>UNEXPECTED\<close> is declared in a header of the
  repository that is not part of the sources at hand. The specification (sections 4.1,
  4.2 and 7) makes an unexpected enumeration value a contract violation that is fatal and
  unrecoverable at the point of detection: the call is aborted there and nothing after
  it runs.
\<close>

definition UNEXPECTED :: "string \<Rightarrow> error + 'a" where
  "UNEXPECTED Message = Inl (Unexpected Message)"

text \<open>
  Modelled from the spec: the macro \<open>VERIFY_EXPR\<close> is declared in the same missing header.
  The specification (sections 4.3 and 7) makes a failed precondition, such as a null
  recording context, a fatal contract violation as well; an expression that holds lets
  the call go on.
\<close>

definition VERIFY_EXPR :: "bool \<Rightarrow> string \<Rightarrow> error + unit" where
  "VERIFY_EXPR Expr Text = (if Expr then Inr () else Inl (VerifyFailed Text))"

section \<open>PipelineStageFromAccessFlags\<close>

definition ALL_GRAPHICS_SHADER_STAGES_BITS :: VkPipelineStageFlags where
  "ALL_GRAPHICS_SHADER_STAGES_BITS =
     VK_PIPELINE_STAGE_VERTEX_SHADER_BIT OR
     VK_PIPELINE_STAGE_TESSELLATION_CONTROL_SHADER_BIT OR
     VK_PIPELINE_STAGE_TESSELLATION_EVALUATION_SHADER_BIT OR
     VK_PIPELINE_STAGE_GEOMETRY_SHADER_BIT OR
     VK_PIPELINE_STAGE_FRAGMENT_SHADER_BIT"

text \<open>The \<open>switch (AccessFlag)\<close> of the loop body: each case ors its stages into \<open>Stages\<close>.\<close>

definition AccessFlag_switch ::
  "VkAccessFlags \<Rightarrow> VkPipelineStageFlags \<Rightarrow> error + VkPipelineStageFlags" where
  "AccessFlag_switch AccessFlag Stages =
    (if AccessFlag = VK_ACCESS_INDIRECT_COMMAND_READ_BIT then
       Inr (Stages OR VK_PIPELINE_STAGE_DRAW_INDIRECT_BIT)
     else if AccessFlag = VK_ACCESS_INDEX_READ_BIT then
       Inr (Stages OR VK_PIPELINE_STAGE_VERTEX_INPUT_BIT)
     else if AccessFlag = VK_ACCESS_VERTEX_ATTRIBUTE_READ_BIT then
       Inr (Stages OR VK_PIPELINE_STAGE_VERTEX_INPUT_BIT)
     else if AccessFlag = VK_ACCESS_UNIFORM_READ_BIT then
       Inr (Stages OR (ALL_GRAPHICS_SHADER_STAGES_BITS OR VK_PIPELINE_STAGE_COMPUTE_SHADER_BIT))
     else if AccessFlag = VK_ACCESS_INPUT_ATTACHMENT_READ_BIT then
       Inr (Stages OR VK_PIPELINE_STAGE_FRAGMENT_SHADER_BIT)
     else if AccessFlag = VK_ACCESS_SHADER_READ_BIT then
       Inr (Stages OR (ALL_GRAPHICS_SHADER_STAGES_BITS OR VK_PIPELINE_STAGE_COMPUTE_SHADER_BIT))
     else if AccessFlag = VK_ACCESS_SHADER_WRITE_BIT then
       Inr (Stages OR (ALL_GRAPHICS_SHADER_STAGES_BITS OR VK_PIPELINE_STAGE_COMPUTE_SHADER_BIT))
     else if AccessFlag = VK_ACCESS_COLOR_ATTACHMENT_READ_BIT then
       Inr (Stages OR VK_PIPELINE_STAGE_COLOR_ATTACHMENT_OUTPUT_BIT)
     else if AccessFlag = VK_ACCESS_COLOR_ATTACHMENT_WRITE_BIT then
       Inr (Stages OR VK_PIPELINE_STAGE_COLOR_ATTACHMENT_OUTPUT_BIT)
     else if AccessFlag = VK_ACCESS_DEPTH_STENCIL_ATTACHMENT_READ_BIT then
       Inr (Stages OR (VK_PIPELINE_STAGE_EARLY_FRAGMENT_TESTS_BIT OR
                       VK_PIPELINE_STAGE_LATE_FRAGMENT_TESTS_BIT))
     else if AccessFlag = VK_ACCESS_DEPTH_STENCIL_ATTACHMENT_WRITE_BIT then
       Inr (Stages OR (VK_PIPELINE_STAGE_EARLY_FRAGMENT_TESTS_BIT OR
                       VK_PIPELINE_STAGE_LATE_FRAGMENT_TESTS_BIT))
     else if AccessFlag = VK_ACCESS_TRANSFER_READ_BIT then
       Inr (Stages OR VK_PIPELINE_STAGE_TRANSFER_BIT)
     else if AccessFlag = VK_ACCESS_TRANSFER_WRITE_BIT then
       Inr (Stages OR VK_PIPELINE_STAGE_TRANSFER_BIT)
     else if AccessFlag = VK_ACCESS_HOST_READ_BIT then
       Inr (Stages OR VK_PIPELINE_STAGE_HOST_BIT)
     else if AccessFlag = VK_ACCESS_HOST_WRITE_BIT then
       Inr (Stages OR VK_PIPELINE_STAGE_HOST_BIT)
     else if AccessFlag = VK_ACCESS_MEMORY_READ_BIT then
       Inr Stages
     else if AccessFlag = VK_ACCESS_MEMORY_WRITE_BIT then
       Inr Stages
     else UNEXPECTED ''Unknown memory access flag'')"

text \<open>
  One iteration of \<open>while (AccessFlags != 0)\<close>: isolate the lowest set bit, check it,
  clear it in \<open>AccessFlags\<close>, and run the switch. The result is the pair of the two
  variables the loop carries.
\<close>

definition PipelineStage_loop_body ::
  "VkAccessFlags \<Rightarrow> VkPipelineStageFlags \<Rightarrow> error + (VkAccessFlags \<times> VkPipelineStageFlags)" where
  "PipelineStage_loop_body AccessFlags Stages =
    (let AccessFlag = AccessFlags AND NOT (AccessFlags - 1) in
     case VERIFY_EXPR (AccessFlag \<noteq> 0 \<and> AccessFlag AND (AccessFlag - 1) = 0)
            ''AccessFlag != 0 && (AccessFlag & (AccessFlag-1)) == 0'' of
       Inl e \<Rightarrow> Inl e
     | Inr _ \<Rightarrow>
        (let AccessFlags' = AccessFlags AND NOT AccessFlag in
         case AccessFlag_switch AccessFlag Stages of
           Inl e \<Rightarrow> Inl e
         | Inr Stages' \<Rightarrow> Inr (AccessFlags', Stages')))"

function PipelineStage_loop ::
  "VkAccessFlags \<Rightarrow> VkPipelineStageFlags \<Rightarrow> error + VkPipelineStageFlags" where
  "PipelineStage_loop AccessFlags Stages =
    (if AccessFlags \<noteq> 0 then
       (case PipelineStage_loop_body AccessFlags Stages of
          Inl e \<Rightarrow> Inl e
        | Inr (AccessFlags', Stages') \<Rightarrow> PipelineStage_loop AccessFlags' Stages')
     else Inr Stages)"
  by pat_completeness auto
termination
proof (relation "measure (\<lambda>(AccessFlags, Stages). unat AccessFlags)")
  show "wf (measure (\<lambda>(AccessFlags, Stages). unat AccessFlags))"
    by simp
next
  fix AccessFlags Stages :: "32 word" and x2 AccessFlags' Stages'
  assume "PipelineStage_loop_body AccessFlags Stages = Inr x2"
    and "(AccessFlags', Stages') = x2"
  then have nz: "AccessFlags AND NOT (AccessFlags - 1) \<noteq> 0"
    and next_flags: "AccessFlags' = AccessFlags AND NOT (AccessFlags AND NOT (AccessFlags - 1))"
    by (auto simp: PipelineStage_loop_body_def VERIFY_EXPR_def Let_def
             split: if_splits sum.splits)
  let ?f = "AccessFlags AND NOT (AccessFlags - 1)"
  have le: "AccessFlags AND NOT ?f \<le> AccessFlags"
    by (rule word_and_le2)
  have "AccessFlags AND NOT ?f \<noteq> AccessFlags"
  proof
    assume eq: "AccessFlags AND NOT ?f = AccessFlags"
    have "?f = (AccessFlags AND NOT ?f) AND ?f"
      by (subst eq) (simp add: ac_simps)
    also have "\<dots> = 0"
      by (rule bit_eqI) (simp add: bit_simps)
    finally show False using nz by simp
  qed
  with le have "AccessFlags AND NOT ?f < AccessFlags"
    by simp
  then have "unat AccessFlags' < unat AccessFlags"
    by (simp add: word_less_nat_alt next_flags)
  then show "((AccessFlags', Stages'), (AccessFlags, Stages))
      \<in> measure (\<lambda>(AccessFlags, Stages). unat AccessFlags)"
    by simp
qed

declare PipelineStage_loop.simps [simp del]

definition PipelineStageFromAccessFlags :: "VkAccessFlags \<Rightarrow> error + VkPipelineStageFlags" where
  "PipelineStageFromAccessFlags AccessFlags = PipelineStage_loop AccessFlags 0"

text \<open>
  The same loop with a budget of iterations: \<open>None\<close> when the budget is used up before
  the loop condition fails. It shares the loop body with \<open>PipelineStage_loop\<close> and serves
  to count iterations.
\<close>

primrec PipelineStage_loop_bounded ::
  "nat \<Rightarrow> VkAccessFlags \<Rightarrow> VkPipelineStageFlags \<Rightarrow> (error + VkPipelineStageFlags) option" where
  "PipelineStage_loop_bounded 0 AccessFlags Stages =
    (if AccessFlags \<noteq> 0 then None else Some (Inr Stages))"
| "PipelineStage_loop_bounded (Suc k) AccessFlags Stages =
    (if AccessFlags \<noteq> 0 then
       (case PipelineStage_loop_body AccessFlags Stages of
          Inl e \<Rightarrow> Some (Inl e)
        | Inr (AccessFlags', Stages') \<Rightarrow> PipelineStage_loop_bounded k AccessFlags' Stages')
     else Some (Inr Stages))"

text \<open>The number of set bits of a 32-bit mask.\<close>

definition set_bit_count :: "32 word \<Rightarrow> nat" where
  "set_bit_count A = length (filter (bit A) [0..<32])"

text \<open>Every bit of \<open>VkAccessFlagBits\<close> that the switch names.\<close>

definition ALL_ACCESS_FLAG_BITS :: VkAccessFlags where
  "ALL_ACCESS_FLAG_BITS =
     VK_ACCESS_INDIRECT_COMMAND_READ_BIT OR VK_ACCESS_INDEX_READ_BIT OR
     VK_ACCESS_VERTEX_ATTRIBUTE_READ_BIT OR VK_ACCESS_UNIFORM_READ_BIT OR
     VK_ACCESS_INPUT_ATTACHMENT_READ_BIT OR VK_ACCESS_SHADER_READ_BIT OR
     VK_ACCESS_SHADER_WRITE_BIT OR VK_ACCESS_COLOR_ATTACHMENT_READ_BIT OR
     VK_ACCESS_COLOR_ATTACHMENT_WRITE_BIT OR VK_ACCESS_DEPTH_STENCIL_ATTACHMENT_READ_BIT OR
     VK_ACCESS_DEPTH_STENCIL_ATTACHMENT_WRITE_BIT OR VK_ACCESS_TRANSFER_READ_BIT OR
     VK_ACCESS_TRANSFER_WRITE_BIT OR VK_ACCESS_HOST_READ_BIT OR VK_ACCESS_HOST_WRITE_BIT OR
     VK_ACCESS_MEMORY_READ_BIT OR VK_ACCESS_MEMORY_WRITE_BIT"

text \<open>
  What the switch contributes for bit number \<open>i\<close>, read off the switch itself, and the
  union of the contributions of the set bits of a mask below position \<open>k\<close>.
\<close>

definition single_bit_stages :: "nat \<Rightarrow> VkPipelineStageFlags" where
  "single_bit_stages i = (case AccessFlag_switch (2 ^ i) 0 of Inl e \<Rightarrow> 0 | Inr s \<Rightarrow> s)"

primrec stages_below :: "nat \<Rightarrow> VkAccessFlags \<Rightarrow> VkPipelineStageFlags" where
  "stages_below 0 A = 0"
| "stages_below (Suc k) A =
     stages_below k A OR (if bit A k then single_bit_stages k else 0)"

section \<open>The command buffer\<close>

text \<open>
  \<open>vkCmdPipelineBarrier\<close> is the Vulkan entry point that records a pipeline barrier into a
  command buffer. A recorded command keeps the arguments of the call; the three
  (count, pointer) pairs are lists. The state is what each command buffer has recorded so
  far, and a ghost counter of the calls of \<open>PipelineStageFromAccessFlags\<close> made by
  \<open>TransitionImageLayout\<close> (an observation of the run, not a variable of the program).
\<close>

record PipelineBarrierCmd =
  srcStageMask :: VkPipelineStageFlags
  dstStageMask :: VkPipelineStageFlags
  dependencyFlags :: VkDependencyFlags
  memoryBarriers :: "VkMemoryBarrier list"
  bufferMemoryBarriers :: "VkBufferMemoryBarrier list"
  imageMemoryBarriers :: "VkImageMemoryBarrier list"

record Recorder =
  recorded :: "VkCommandBuffer \<Rightarrow> PipelineBarrierCmd list"
  mapper_invocations :: nat

definition vkCmdPipelineBarrier ::
  "Recorder \<Rightarrow> VkCommandBuffer \<Rightarrow> VkPipelineStageFlags \<Rightarrow> VkPipelineStageFlags \<Rightarrow>
   VkDependencyFlags \<Rightarrow> VkMemoryBarrier list \<Rightarrow> VkBufferMemoryBarrier list \<Rightarrow>
   VkImageMemoryBarrier list \<Rightarrow> Recorder" where
  "vkCmdPipelineBarrier s commandBuffer srcStages dstStages depFlags pMemoryBarriers
      pBufferMemoryBarriers pImageMemoryBarriers =
    s\<lparr>recorded := (recorded s)(commandBuffer := recorded s commandBuffer @
      [\<lparr>srcStageMask = srcStages, dstStageMask = dstStages, dependencyFlags = depFlags,
        memoryBarriers = pMemoryBarriers, bufferMemoryBarriers = pBufferMemoryBarriers,
        imageMemoryBarriers = pImageMemoryBarriers\<rparr>])\<rparr>"

section \<open>TransitionImageLayout\<close>

text \<open>
  Lines 157 to 168: the barrier is zero-initialised, then its fields are assigned one by
  one. The aspect mask of the range is assigned first and the whole range right after.
\<close>

definition zero_SubresourceRange :: VkImageSubresourceRange where
  "zero_SubresourceRange =
    \<lparr>aspectMask = 0, baseMipLevel = 0, levelCount = 0, baseArrayLayer = 0, layerCount = 0\<rparr>"

definition zero_ImageMemoryBarrier :: VkImageMemoryBarrier where
  "zero_ImageMemoryBarrier =
    \<lparr>sType = 0, pNext = 0, srcAccessMask = 0, dstAccessMask = 0,
     oldLayout = VK_IMAGE_LAYOUT_UNDEFINED, newLayout = VK_IMAGE_LAYOUT_UNDEFINED,
     srcQueueFamilyIndex = 0, dstQueueFamilyIndex = 0, image = 0,
     subresourceRange = zero_SubresourceRange\<rparr>"

definition init_ImgBarrier ::
  "VkImage \<Rightarrow> VkImageAspectFlags \<Rightarrow> VkImageLayout \<Rightarrow> VkImageLayout \<Rightarrow>
   VkImageSubresourceRange \<Rightarrow> VkImageMemoryBarrier" where
  "init_ImgBarrier Img AspectMask OldLayout NewLayout SubresRange =
    (let ImgBarrier = zero_ImageMemoryBarrier;
         ImgBarrier = ImgBarrier\<lparr>sType := VK_STRUCTURE_TYPE_IMAGE_MEMORY_BARRIER\<rparr>;
         ImgBarrier = ImgBarrier\<lparr>pNext := 0\<rparr>;
         ImgBarrier = ImgBarrier\<lparr>srcAccessMask := 0\<rparr>;
         ImgBarrier = ImgBarrier\<lparr>dstAccessMask := 0\<rparr>;
         ImgBarrier = ImgBarrier\<lparr>oldLayout := OldLayout\<rparr>;
         ImgBarrier = ImgBarrier\<lparr>newLayout := NewLayout\<rparr>;
         ImgBarrier = ImgBarrier\<lparr>srcQueueFamilyIndex := VK_QUEUE_FAMILY_IGNORED\<rparr>;
         ImgBarrier = ImgBarrier\<lparr>dstQueueFamilyIndex := VK_QUEUE_FAMILY_IGNORED\<rparr>;
         ImgBarrier = ImgBarrier\<lparr>image := Img\<rparr>;
         ImgBarrier = ImgBarrier\<lparr>subresourceRange :=
                        (subresourceRange ImgBarrier)\<lparr>aspectMask := AspectMask\<rparr>\<rparr>;
         ImgBarrier = ImgBarrier\<lparr>subresourceRange := SubresRange\<rparr>
     in ImgBarrier)"

text \<open>\<open>switch (OldLayout)\<close>, lines 170 to 236.\<close>

fun OldLayout_switch :: "VkImageLayout \<Rightarrow> VkImageMemoryBarrier \<Rightarrow> error + VkImageMemoryBarrier" where
  "OldLayout_switch VK_IMAGE_LAYOUT_UNDEFINED ImgBarrier = Inr ImgBarrier"
| "OldLayout_switch VK_IMAGE_LAYOUT_GENERAL ImgBarrier =
     UNEXPECTED ''General layout is not recommended''"
| "OldLayout_switch VK_IMAGE_LAYOUT_COLOR_ATTACHMENT_OPTIMAL ImgBarrier =
     Inr (ImgBarrier\<lparr>srcAccessMask := VK_ACCESS_COLOR_ATTACHMENT_WRITE_BIT\<rparr>)"
| "OldLayout_switch VK_IMAGE_LAYOUT_DEPTH_STENCIL_ATTACHMENT_OPTIMAL ImgBarrier =
     Inr (ImgBarrier\<lparr>srcAccessMask := VK_ACCESS_DEPTH_STENCIL_ATTACHMENT_WRITE_BIT\<rparr>)"
| "OldLayout_switch VK_IMAGE_LAYOUT_DEPTH_STENCIL_READ_ONLY_OPTIMAL ImgBarrier =
     Inr (ImgBarrier\<lparr>srcAccessMask := VK_ACCESS_DEPTH_STENCIL_ATTACHMENT_READ_BIT\<rparr>)"
| "OldLayout_switch VK_IMAGE_LAYOUT_SHADER_READ_ONLY_OPTIMAL ImgBarrier =
     Inr (ImgBarrier\<lparr>srcAccessMask := VK_ACCESS_SHADER_READ_BIT\<rparr>)"
| "OldLayout_switch VK_IMAGE_LAYOUT_TRANSFER_SRC_OPTIMAL ImgBarrier =
     Inr (ImgBarrier\<lparr>srcAccessMask := VK_ACCESS_TRANSFER_READ_BIT\<rparr>)"
| "OldLayout_switch VK_IMAGE_LAYOUT_TRANSFER_DST_OPTIMAL ImgBarrier =
     Inr (ImgBarrier\<lparr>srcAccessMask := VK_ACCESS_TRANSFER_WRITE_BIT\<rparr>)"
| "OldLayout_switch VK_IMAGE_LAYOUT_PREINITIALIZED ImgBarrier =
     Inr (ImgBarrier\<lparr>srcAccessMask := VK_ACCESS_HOST_WRITE_BIT\<rparr>)"
| "OldLayout_switch VK_IMAGE_LAYOUT_DEPTH_READ_ONLY_STENCIL_ATTACHMENT_OPTIMAL ImgBarrier =
     Inr (ImgBarrier\<lparr>srcAccessMask := VK_ACCESS_DEPTH_STENCIL_ATTACHMENT_READ_BIT\<rparr>)"
| "OldLayout_switch VK_IMAGE_LAYOUT_DEPTH_ATTACHMENT_STENCIL_READ_ONLY_OPTIMAL ImgBarrier =
     Inr (ImgBarrier\<lparr>srcAccessMask := VK_ACCESS_DEPTH_STENCIL_ATTACHMENT_READ_BIT\<rparr>)"
| "OldLayout_switch VK_IMAGE_LAYOUT_PRESENT_SRC_KHR ImgBarrier =
     Inr (ImgBarrier\<lparr>srcAccessMask := VK_ACCESS_MEMORY_READ_BIT\<rparr>)"
| "OldLayout_switch VK_IMAGE_LAYOUT_SHARED_PRESENT_KHR ImgBarrier =
     UNEXPECTED ''Unexpected image layout''"

text \<open>
  \<open>switch (NewLayout)\<close>, lines 239 to 296. The case of
  \<open>VK_IMAGE_LAYOUT_DEPTH_STENCIL_READ_ONLY_OPTIMAL\<close> (line 260) assigns \<open>srcAccessMask\<close>,
  as the source does.
\<close>

fun NewLayout_switch :: "VkImageLayout \<Rightarrow> VkImageMemoryBarrier \<Rightarrow> error + VkImageMemoryBarrier" where
  "NewLayout_switch VK_IMAGE_LAYOUT_UNDEFINED ImgBarrier =
     UNEXPECTED (''The new layout used in a transition must not be VK_IMAGE_LAYOUT_UNDEFINED. '' @
                 ''This layout must only be used as the initialLayout member of VkImageCreateInfo '' @
                 ''or VkAttachmentDescription, or as the oldLayout in an image transition. (11.4)'')"
| "NewLayout_switch VK_IMAGE_LAYOUT_GENERAL ImgBarrier =
     UNEXPECTED ''General layout is not recommended due to inefficiency''"
| "NewLayout_switch VK_IMAGE_LAYOUT_COLOR_ATTACHMENT_OPTIMAL ImgBarrier =
     Inr (ImgBarrier\<lparr>dstAccessMask := VK_ACCESS_COLOR_ATTACHMENT_WRITE_BIT\<rparr>)"
| "NewLayout_switch VK_IMAGE_LAYOUT_DEPTH_STENCIL_ATTACHMENT_OPTIMAL ImgBarrier =
     Inr (ImgBarrier\<lparr>dstAccessMask := VK_ACCESS_DEPTH_STENCIL_ATTACHMENT_WRITE_BIT\<rparr>)"
| "NewLayout_switch VK_IMAGE_LAYOUT_DEPTH_STENCIL_READ_ONLY_OPTIMAL ImgBarrier =
     Inr (ImgBarrier\<lparr>srcAccessMask := VK_ACCESS_DEPTH_STENCIL_ATTACHMENT_READ_BIT\<rparr>)"
| "NewLayout_switch VK_IMAGE_LAYOUT_SHADER_READ_ONLY_OPTIMAL ImgBarrier =
     Inr (ImgBarrier\<lparr>dstAccessMask :=
            VK_ACCESS_SHADER_READ_BIT OR VK_ACCESS_INPUT_ATTACHMENT_READ_BIT\<rparr>)"
| "NewLayout_switch VK_IMAGE_LAYOUT_TRANSFER_SRC_OPTIMAL ImgBarrier =
     Inr (ImgBarrier\<lparr>dstAccessMask := VK_ACCESS_TRANSFER_READ_BIT\<rparr>)"
| "NewLayout_switch VK_IMAGE_LAYOUT_TRANSFER_DST_OPTIMAL ImgBarrier =
     Inr (ImgBarrier\<lparr>dstAccessMask := VK_ACCESS_TRANSFER_WRITE_BIT\<rparr>)"
| "NewLayout_switch VK_IMAGE_LAYOUT_PREINITIALIZED ImgBarrier =
     UNEXPECTED (''The new layout used in a transition must not be VK_IMAGE_LAYOUT_PREINITIALIZED. '' @
                 ''This layout must only be used as the initialLayout member of VkImageCreateInfo '' @
                 ''or VkAttachmentDescription, or as the oldLayout in an image transition. (11.4)'')"
| "NewLayout_switch VK_IMAGE_LAYOUT_DEPTH_READ_ONLY_STENCIL_ATTACHMENT_OPTIMAL ImgBarrier =
     Inr (ImgBarrier\<lparr>dstAccessMask := VK_ACCESS_DEPTH_STENCIL_ATTACHMENT_READ_BIT\<rparr>)"
| "NewLayout_switch VK_IMAGE_LAYOUT_DEPTH_ATTACHMENT_STENCIL_READ_ONLY_OPTIMAL ImgBarrier =
     Inr (ImgBarrier\<lparr>dstAccessMask := VK_ACCESS_DEPTH_STENCIL_ATTACHMENT_READ_BIT\<rparr>)"
| "NewLayout_switch VK_IMAGE_LAYOUT_PRESENT_SRC_KHR ImgBarrier =
     Inr (ImgBarrier\<lparr>dstAccessMask := VK_ACCESS_MEMORY_READ_BIT\<rparr>)"
| "NewLayout_switch VK_IMAGE_LAYOUT_SHARED_PRESENT_KHR ImgBarrier =
     UNEXPECTED ''Unexpected image layout''"

text \<open>
  Lines 298 to 302: a stage mask that is zero is replaced by the result of
  \<open>PipelineStageFromAccessFlags\<close> on the access mask of the barrier; the call is counted.
\<close>

definition stages_or_derived ::
  "Recorder \<Rightarrow> VkPipelineStageFlags \<Rightarrow> VkAccessFlags \<Rightarrow> error + (Recorder \<times> VkPipelineStageFlags)" where
  "stages_or_derived s Stages AccessMask =
    (if Stages = 0 then
       (case PipelineStageFromAccessFlags AccessMask of
          Inl e \<Rightarrow> Inl e
        | Inr Derived \<Rightarrow> Inr (s\<lparr>mapper_invocations := Suc (mapper_invocations s)\<rparr>, Derived))
     else Inr (s, Stages))"

definition TransitionImageLayout ::
  "Recorder \<Rightarrow> VkCommandBuffer \<Rightarrow> VkImage \<Rightarrow> VkImageAspectFlags \<Rightarrow> VkImageLayout \<Rightarrow>
   VkImageLayout \<Rightarrow> VkImageSubresourceRange \<Rightarrow> VkPipelineStageFlags \<Rightarrow>
   VkPipelineStageFlags \<Rightarrow> error + Recorder" where
  "TransitionImageLayout s CmdBuffer Img AspectMask OldLayout NewLayout SubresRange
      SrcStages DestStages =
    (case VERIFY_EXPR (CmdBuffer \<noteq> VK_NULL_HANDLE) ''CmdBuffer != VK_NULL_HANDLE'' of
       Inl e \<Rightarrow> Inl e
     | Inr _ \<Rightarrow>
    (case OldLayout_switch OldLayout
            (init_ImgBarrier Img AspectMask OldLayout NewLayout SubresRange) of
       Inl e \<Rightarrow> Inl e
     | Inr ImgBarrier \<Rightarrow>
    (case NewLayout_switch NewLayout ImgBarrier of
       Inl e \<Rightarrow> Inl e
     | Inr ImgBarrier \<Rightarrow>
    (case stages_or_derived s SrcStages (srcAccessMask ImgBarrier) of
       Inl e \<Rightarrow> Inl e
     | Inr (s, SrcStages) \<Rightarrow>
    (case stages_or_derived s DestStages (dstAccessMask ImgBarrier) of
       Inl e \<Rightarrow> Inl e
     | Inr (s, DestStages) \<Rightarrow>
       Inr (vkCmdPipelineBarrier s CmdBuffer SrcStages DestStages 0 [] [] [ImgBarrier]))))))"

section \<open>FlushBarriers\<close>

text \<open>The body of \<open>FlushBarriers\<close> is empty (lines 316 to 319).\<close>

definition FlushBarriers :: "Recorder \<Rightarrow> error + Recorder" where
  "FlushBarriers s = Inr s"

section \<open>Example inputs\<close>

text \<open>A recorder in which nothing has been recorded, and a single-level colour range.\<close>

definition empty_Recorder :: Recorder where
  "empty_Recorder = \<lparr>recorded = (\<lambda>_. []), mapper_invocations = 0\<rparr>"

definition example_range :: VkImageSubresourceRange where
  "example_range =
    \<lparr>aspectMask = 1, baseMipLevel = 0, levelCount = 1, baseArrayLayer = 0, layerCount = 1\<rparr>"

section \<open>Evaluation and structure lemmas\<close>

lemmas mapper_eval =
  PipelineStageFromAccessFlags_def PipelineStage_loop.simps PipelineStage_loop_body_def
  VERIFY_EXPR_def
  AccessFlag_switch_def UNEXPECTED_def VkAccessFlagBits_defs VkPipelineStageFlagBits_defs
  ALL_GRAPHICS_SHADER_STAGES_BITS_def

lemmas transition_eval =
  TransitionImageLayout_def init_ImgBarrier_def zero_ImageMemoryBarrier_def
  stages_or_derived_def vkCmdPipelineBarrier_def VK_NULL_HANDLE_def Let_def

lemma TransitionImageLayout_InrD:
  assumes "TransitionImageLayout s CmdBuffer Img AspectMask OldLayout NewLayout SubresRange
             SrcStages DestStages = Inr s'"
  obtains b1 b s1 s2 S D where "CmdBuffer \<noteq> VK_NULL_HANDLE"
    and "OldLayout_switch OldLayout (init_ImgBarrier Img AspectMask OldLayout NewLayout SubresRange) = Inr b1"
    and "NewLayout_switch NewLayout b1 = Inr b"
    and "stages_or_derived s SrcStages (srcAccessMask b) = Inr (s1, S)"
    and "stages_or_derived s1 DestStages (dstAccessMask b) = Inr (s2, D)"
    and "s' = vkCmdPipelineBarrier s2 CmdBuffer S D 0 [] [] [b]"
  using assms
  by (auto simp: TransitionImageLayout_def VERIFY_EXPR_def split: sum.splits if_splits prod.splits)

lemma OldLayout_switch_frame:
  assumes "OldLayout_switch l b = Inr b'"
  shows "oldLayout b' = oldLayout b" and "newLayout b' = newLayout b"
    and "subresourceRange b' = subresourceRange b" and "image b' = image b"
    and "srcQueueFamilyIndex b' = srcQueueFamilyIndex b"
    and "dstQueueFamilyIndex b' = dstQueueFamilyIndex b"
    and "sType b' = sType b" and "pNext b' = pNext b"
    and "dstAccessMask b' = dstAccessMask b"
  using assms by (cases l; auto simp: UNEXPECTED_def)+

lemma NewLayout_switch_frame:
  assumes "NewLayout_switch l b = Inr b'"
  shows "oldLayout b' = oldLayout b" and "newLayout b' = newLayout b"
    and "subresourceRange b' = subresourceRange b" and "image b' = image b"
    and "srcQueueFamilyIndex b' = srcQueueFamilyIndex b"
    and "dstQueueFamilyIndex b' = dstQueueFamilyIndex b"
    and "sType b' = sType b" and "pNext b' = pNext b"
  using assms by (cases l; auto simp: UNEXPECTED_def)+

lemma init_ImgBarrier_fields:
  "oldLayout (init_ImgBarrier Img AspectMask OldLayout NewLayout SubresRange) = OldLayout"
  "newLayout (init_ImgBarrier Img AspectMask OldLayout NewLayout SubresRange) = NewLayout"
  "subresourceRange (init_ImgBarrier Img AspectMask OldLayout NewLayout SubresRange) = SubresRange"
  "image (init_ImgBarrier Img AspectMask OldLayout NewLayout SubresRange) = Img"
  "srcQueueFamilyIndex (init_ImgBarrier Img AspectMask OldLayout NewLayout SubresRange) =
     VK_QUEUE_FAMILY_IGNORED"
  "dstQueueFamilyIndex (init_ImgBarrier Img AspectMask OldLayout NewLayout SubresRange) =
     VK_QUEUE_FAMILY_IGNORED"
  "srcAccessMask (init_ImgBarrier Img AspectMask OldLayout NewLayout SubresRange) = 0"
  "dstAccessMask (init_ImgBarrier Img AspectMask OldLayout NewLayout SubresRange) = 0"
  by (simp_all add: init_ImgBarrier_def Let_def zero_ImageMemoryBarrier_def)

lemma stages_or_derived_InrD:
  assumes "stages_or_derived s Stages AccessMask = Inr (s1, S)"
  shows "recorded s1 = recorded s"
    and "Stages \<noteq> 0 \<Longrightarrow> S = Stages \<and> s1 = s"
    and "Stages = 0 \<Longrightarrow> PipelineStageFromAccessFlags AccessMask = Inr S
           \<and> mapper_invocations s1 = Suc (mapper_invocations s)"
  using assms by (auto simp: stages_or_derived_def split: if_splits sum.splits)

section \<open>The lowest set bit\<close>

lemma lowest_bit:
  fixes A :: "'a::len word"
  assumes "A \<noteq> 0"
  obtains n where "n < LENGTH('a)" and "bit A n" and "\<And>m. m < n \<Longrightarrow> \<not> bit A m"
    and "A AND NOT (A - 1) = 2 ^ n"
proof -
  from assms obtain k where k: "bit A k"
    by (auto simp: bit_eq_iff)
  define n where "n = (LEAST k. bit A k)"
  have bn: "bit A n"
    unfolding n_def using k by (rule LeastI)
  have lo: "\<not> bit A m" if "m < n" for m
    using that unfolding n_def by (rule not_less_Least)
  have nlen: "n < LENGTH('a)"
    using bn by (rule bit_imp_le_length)
  define B where "B = drop_bit (Suc n) A"
  have disj1: "(2 ^ n :: 'a word) AND push_bit (Suc n) B = 0"
    by (rule bit_eqI) (auto simp: bit_simps simp del: push_bit_Suc)
  have disj2: "(mask n :: 'a word) AND push_bit (Suc n) B = 0"
    by (rule bit_eqI) (auto simp: bit_simps simp del: push_bit_Suc)
  have "A = 2 ^ n OR push_bit (Suc n) B"
  proof (rule bit_eqI)
    fix i assume "possible_bit TYPE('a word) i"
    show "bit A i = bit (2 ^ n OR push_bit (Suc n) B) i"
      using bn lo [of i] nlen
      by (cases i n rule: linorder_cases)
         (auto simp: bit_simps B_def simp del: push_bit_Suc dest: bit_imp_le_length)
  qed
  also have "\<dots> = 2 ^ n + push_bit (Suc n) B"
    using disj1 by (simp add: disjunctive_add_eq_or)
  finally have A: "A = 2 ^ n + push_bit (Suc n) B" .
  have "A - 1 = mask n + push_bit (Suc n) B"
    by (subst A) (simp add: mask_eq_exp_minus_1)
  also have "\<dots> = mask n OR push_bit (Suc n) B"
    using disj2 by (simp add: disjunctive_add_eq_or)
  finally have A1: "A - 1 = mask n OR push_bit (Suc n) B" .
  have "A AND NOT (A - 1) = 2 ^ n"
  proof (rule bit_eqI)
    fix i assume "possible_bit TYPE('a word) i"
    show "bit (A AND NOT (A - 1)) i = bit (2 ^ n :: 'a word) i"
      unfolding A1 using bn lo [of i] nlen
      by (cases i n rule: linorder_cases)
         (auto simp: bit_simps B_def simp del: push_bit_Suc dest: bit_imp_le_length)
  qed
  with nlen bn lo show thesis
    by (rule that)
qed

lemma single_bit_word:
  fixes n :: nat
  assumes "n < LENGTH('a::len)"
  shows "(2 ^ n :: 'a word) \<noteq> 0" and "(2 ^ n :: 'a word) AND (2 ^ n - 1) = 0"
proof -
  show "(2 ^ n :: 'a word) \<noteq> 0"
    using assms by simp
  have "(2 ^ n :: 'a word) AND mask n = 0"
    by (rule bit_eqI) (auto simp: bit_simps)
  then show "(2 ^ n :: 'a word) AND (2 ^ n - 1) = 0"
    by (simp add: mask_eq_exp_minus_1)
qed

lemma loop_body_lowest:
  assumes "A \<noteq> 0"
  obtains n where "n < 32" and "bit A n" and "A AND NOT (A - 1) = 2 ^ n"
    and "\<forall>S. PipelineStage_loop_body A S =
          (case AccessFlag_switch (2 ^ n) S of
             Inl e \<Rightarrow> Inl e
           | Inr S' \<Rightarrow> Inr (A AND NOT (2 ^ n), S'))"
proof -
  from assms obtain n where n: "n < 32" "bit A n" "A AND NOT (A - 1) = 2 ^ n"
    by (rule lowest_bit [where 'a = 32]) simp
  have "(2 ^ n :: 32 word) \<noteq> 0" and "(2 ^ n :: 32 word) AND (2 ^ n - 1) = 0"
    using n(1) by (simp_all add: single_bit_word)
  then have "\<forall>S. PipelineStage_loop_body A S =
          (case AccessFlag_switch (2 ^ n) S of
             Inl e \<Rightarrow> Inl e
           | Inr S' \<Rightarrow> Inr (A AND NOT (2 ^ n), S'))"
    by (simp add: PipelineStage_loop_body_def VERIFY_EXPR_def n(3) Let_def)
  with n show thesis
    by (rule that)
qed

lemma ALL_ACCESS_FLAG_BITS_mask: "ALL_ACCESS_FLAG_BITS = mask 17"
  by (simp add: ALL_ACCESS_FLAG_BITS_def VkAccessFlagBits_defs mask_eq_exp_minus_1)

lemma known_bits_iff:
  "A AND NOT ALL_ACCESS_FLAG_BITS = 0 \<longleftrightarrow> (\<forall>i. bit A i \<longrightarrow> i < 17)"
proof
  assume "A AND NOT ALL_ACCESS_FLAG_BITS = 0"
  then have none: "\<not> bit (A AND NOT (mask 17)) i" for i
    by (simp add: ALL_ACCESS_FLAG_BITS_mask)
  show "\<forall>i. bit A i \<longrightarrow> i < 17"
  proof (intro allI impI)
    fix i assume "bit A i"
    moreover from this have "i < 32"
      using bit_imp_le_length [of A i] by simp
    ultimately show "i < 17"
      using none [of i] by (simp add: bit_simps not_le)
  qed
next
  assume "\<forall>i. bit A i \<longrightarrow> i < 17"
  then show "A AND NOT ALL_ACCESS_FLAG_BITS = 0"
    unfolding ALL_ACCESS_FLAG_BITS_mask
    by (intro bit_eqI) (auto simp: bit_simps)
qed

lemma less_17_cases:
  assumes "pos < (17::nat)"
  obtains "pos = 0" | "pos = 1" | "pos = 2" | "pos = 3" | "pos = 4" | "pos = 5" | "pos = 6"
    | "pos = 7" | "pos = 8" | "pos = 9" | "pos = 10" | "pos = 11" | "pos = 12" | "pos = 13"
    | "pos = 14" | "pos = 15" | "pos = 16"
proof -
  have "pos \<in> {0, 1, 2, 3, 4, 5, 6, 7, 8, 9, 10, 11, 12, 13, 14, 15, 16}"
    using assms by (simp add: numeral_eq_Suc less_Suc_eq)
  then show thesis
    using that by blast
qed

lemma AccessFlag_switch_known:
  assumes "n < 17"
  shows "AccessFlag_switch (2 ^ n) S = Inr (S OR single_bit_stages n)"
  using assms
  by (rule less_17_cases)
     (simp_all add: AccessFlag_switch_def single_bit_stages_def VkAccessFlagBits_defs)

lemma stages_below_0: "stages_below k 0 = 0"
  by (induction k) simp_all

lemma bit_clear_single:
  fixes A :: "32 word"
  shows "bit (A AND NOT (2 ^ n)) i \<longleftrightarrow> bit A i \<and> i \<noteq> n"
  by (auto simp: bit_simps dest: bit_imp_le_length)

lemma stages_below_clear:
  "stages_below k (A AND NOT (2 ^ n)) OR (if bit A n \<and> n < k then single_bit_stages n else 0)
     = stages_below k A"
proof (induction k)
  case 0
  show ?case by simp
next
  case (Suc k)
  show ?case
    using Suc.IH
    by (cases "n = k") (auto simp: bit_clear_single ac_simps less_Suc_eq)
qed

lemma PipelineStage_loop_known:
  assumes "A AND NOT ALL_ACCESS_FLAG_BITS = 0"
  shows "PipelineStage_loop A S = Inr (S OR stages_below 17 A)"
  using assms
proof (induction A S rule: PipelineStage_loop.induct)
  case (1 A S)
  show ?case
  proof (cases "A = 0")
    case True
    then show ?thesis
      by (subst PipelineStage_loop.simps) (simp add: stages_below_0)
  next
    case False
    then obtain n where n: "n < 32" "bit A n" "A AND NOT (A - 1) = 2 ^ n"
      and body: "\<forall>S. PipelineStage_loop_body A S =
          (case AccessFlag_switch (2 ^ n) S of
             Inl e \<Rightarrow> Inl e
           | Inr S' \<Rightarrow> Inr (A AND NOT (2 ^ n), S'))"
      by (rule loop_body_lowest)
    from "1.prems" n(2) have n17: "n < 17"
      by (simp add: known_bits_iff)
    have body': "PipelineStage_loop_body A S =
        Inr (A AND NOT (2 ^ n), S OR single_bit_stages n)"
      by (simp add: body AccessFlag_switch_known [OF n17])
    have "(A AND NOT (2 ^ n)) AND NOT ALL_ACCESS_FLAG_BITS = 0"
      using "1.prems" by (simp add: known_bits_iff bit_clear_single)
    with False body' have "PipelineStage_loop (A AND NOT (2 ^ n)) (S OR single_bit_stages n) =
        Inr ((S OR single_bit_stages n) OR stages_below 17 (A AND NOT (2 ^ n)))"
      by (intro "1.IH") simp_all
    moreover have "stages_below 17 (A AND NOT (2 ^ n)) OR single_bit_stages n = stages_below 17 A"
      using stages_below_clear [of 17 A n] n(2) n17 by simp
    then have "(S OR single_bit_stages n) OR stages_below 17 (A AND NOT (2 ^ n)) =
        S OR stages_below 17 A"
      by (simp add: ac_simps)
    ultimately show ?thesis
      using False body' by (subst PipelineStage_loop.simps) simp
  qed
qed

lemma stages_below_union:
  "stages_below k (A OR B) = stages_below k A OR stages_below k B"
  by (induction k) (auto simp: bit_simps ac_simps)

lemma upper_15_cases:
  assumes "17 \<le> pos" and "pos < (32::nat)"
  obtains "pos = 17" | "pos = 18" | "pos = 19" | "pos = 20" | "pos = 21" | "pos = 22"
    | "pos = 23" | "pos = 24" | "pos = 25" | "pos = 26" | "pos = 27" | "pos = 28"
    | "pos = 29" | "pos = 30" | "pos = 31"
proof -
  have "pos \<in> {17, 18, 19, 20, 21, 22, 23, 24, 25, 26, 27, 28, 29, 30, 31}"
    using assms by (simp add: numeral_eq_Suc less_Suc_eq)
  then show thesis
    using that by blast
qed

lemma AccessFlag_switch_unknown:
  assumes "17 \<le> n" and "n < 32"
  shows "AccessFlag_switch (2 ^ n) S = Inl (Unexpected ''Unknown memory access flag'')"
  using assms
  by (rule upper_15_cases)
     (simp_all add: AccessFlag_switch_def UNEXPECTED_def VkAccessFlagBits_defs)

lemma PipelineStage_loop_unknown:
  assumes "A AND NOT ALL_ACCESS_FLAG_BITS \<noteq> 0"
  shows "PipelineStage_loop A S = Inl (Unexpected ''Unknown memory access flag'')"
  using assms
proof (induction A S rule: PipelineStage_loop.induct)
  case (1 A S)
  from "1.prems" have nz: "A \<noteq> 0"
    by auto
  then obtain n where n: "n < 32" "bit A n" "A AND NOT (A - 1) = 2 ^ n"
    and body: "\<forall>S. PipelineStage_loop_body A S =
        (case AccessFlag_switch (2 ^ n) S of
           Inl e \<Rightarrow> Inl e
         | Inr S' \<Rightarrow> Inr (A AND NOT (2 ^ n), S'))"
    by (rule loop_body_lowest)
  show ?case
  proof (cases "n < 17")
    case False
    then have "AccessFlag_switch (2 ^ n) S = Inl (Unexpected ''Unknown memory access flag'')"
      using n(1) by (simp add: AccessFlag_switch_unknown)
    with nz show ?thesis
      by (subst PipelineStage_loop.simps) (simp add: body)
  next
    case True
    have body': "PipelineStage_loop_body A S =
        Inr (A AND NOT (2 ^ n), S OR single_bit_stages n)"
      by (simp add: body AccessFlag_switch_known [OF True])
    from "1.prems" obtain i where i: "bit A i" "\<not> i < 17"
      by (auto simp: known_bits_iff)
    with True have "bit (A AND NOT (2 ^ n)) i"
      by (auto simp: bit_clear_single)
    with i(2) have "(A AND NOT (2 ^ n)) AND NOT ALL_ACCESS_FLAG_BITS \<noteq> 0"
      by (auto simp: known_bits_iff)
    with nz body' have "PipelineStage_loop (A AND NOT (2 ^ n)) (S OR single_bit_stages n) =
        Inl (Unexpected ''Unknown memory access flag'')"
      by (intro "1.IH") simp_all
    with nz body' show ?thesis
      by (subst PipelineStage_loop.simps) simp
  qed
qed

lemma PipelineStageFromAccessFlags_closed_form:
  "PipelineStageFromAccessFlags A =
    (if A AND NOT ALL_ACCESS_FLAG_BITS = 0 then Inr (stages_below 17 A)
     else Inl (Unexpected ''Unknown memory access flag''))"
  using PipelineStage_loop_known [of A 0] PipelineStage_loop_unknown [of A 0]
  by (simp add: PipelineStageFromAccessFlags_def)

lemma known_bits_union_iff:
  "(A OR B) AND NOT ALL_ACCESS_FLAG_BITS = 0 \<longleftrightarrow>
     A AND NOT ALL_ACCESS_FLAG_BITS = 0 \<and> B AND NOT ALL_ACCESS_FLAG_BITS = 0"
  by (auto simp: known_bits_iff bit_simps)

section \<open>Counting iterations\<close>

lemma set_bit_count_card: "set_bit_count A = card {i. bit A i}"
proof -
  have "{i. i < 32 \<and> bit A i} = {i. bit A i}"
    using bit_imp_le_length [of A] by auto
  moreover have "{i. i < 32 \<and> bit A ([0..<32] ! i)} = {i. i < 32 \<and> bit A i}"
    by (rule Collect_cong) auto
  then have "set_bit_count A = card {i. i < 32 \<and> bit A i}"
    by (simp add: set_bit_count_def length_filter_conv_card)
  ultimately show ?thesis
    by simp
qed

lemma set_bit_count_le: "set_bit_count A \<le> 32"
  unfolding set_bit_count_def using length_filter_le [of "bit A" "[0..<32]"] by simp

lemma set_bit_count_clear:
  assumes "bit A n"
  shows "set_bit_count A = Suc (set_bit_count (A AND NOT (2 ^ n)))"
proof -
  have "{i. bit (A AND NOT (2 ^ n)) i} = {i. bit A i} - {n}"
    by (auto simp: bit_clear_single)
  moreover have "card {i. bit A i} = Suc (card ({i. bit A i} - {n}))"
    using assms by (intro card.remove) simp_all
  ultimately show ?thesis
    by (simp add: set_bit_count_card)
qed

lemma set_bit_count_0:
  assumes "set_bit_count A = 0"
  shows "A = 0"
proof (rule ccontr)
  assume "A \<noteq> 0"
  then obtain n where "bit A n"
    by (auto simp: bit_eq_iff)
  then show False
    using assms set_bit_count_clear [of A n] by simp
qed

lemma PipelineStage_loop_bounded_enough:
  assumes "set_bit_count A \<le> k"
  shows "PipelineStage_loop_bounded k A S = Some (PipelineStage_loop A S)"
  using assms
proof (induction k arbitrary: A S)
  case 0
  then have "A = 0"
    by (simp add: set_bit_count_0)
  then show ?case
    by (subst PipelineStage_loop.simps) simp
next
  case (Suc k)
  show ?case
  proof (cases "A = 0")
    case True
    then show ?thesis
      by (subst PipelineStage_loop.simps) simp
  next
    case False
    then obtain n where n: "n < 32" "bit A n" "A AND NOT (A - 1) = 2 ^ n"
      and body: "\<forall>S. PipelineStage_loop_body A S =
          (case AccessFlag_switch (2 ^ n) S of
             Inl e \<Rightarrow> Inl e
           | Inr S' \<Rightarrow> Inr (A AND NOT (2 ^ n), S'))"
      by (rule loop_body_lowest)
    have "set_bit_count (A AND NOT (2 ^ n)) \<le> k"
      using Suc.prems set_bit_count_clear [OF n(2)] by simp
    then have IH: "PipelineStage_loop_bounded k (A AND NOT (2 ^ n)) S' =
        Some (PipelineStage_loop (A AND NOT (2 ^ n)) S')" for S'
      by (rule Suc.IH)
    show ?thesis
    proof (cases "AccessFlag_switch (2 ^ n) S")
      case (Inl e)
      with False show ?thesis
        by (subst PipelineStage_loop.simps) (simp add: body)
    next
      case (Inr S')
      with False show ?thesis
        by (subst PipelineStage_loop.simps) (simp add: body IH)
    qed
  qed
qed

section \<open>Properties of PipelineStageFromAccessFlags\<close>

text \<open>
  C2. For each single access bit, \<open>PipelineStageFromAccessFlags\<close> returns the stages of the
  table of section 4.1 of the specification: indirect-command read gives draw-indirect;
  index read and vertex-attribute read give vertex-input; uniform read, shader read and
  shader write give the five graphics shader stages (vertex, tessellation control,
  tessellation evaluation, geometry, fragment) together with the compute shader stage,
  each stage bit written out; input-attachment read gives the fragment shader; colour-attachment read and write give
  colour-attachment-output; depth/stencil-attachment read and write give the early and
  late fragment tests; transfer read and write give transfer; host read and write give
  host; memory read and memory write give no stage.
\<close>

theorem PipelineStageFromAccessFlags_single_bit_table:
  "PipelineStageFromAccessFlags VK_ACCESS_INDIRECT_COMMAND_READ_BIT = Inr VK_PIPELINE_STAGE_DRAW_INDIRECT_BIT \<and>
   PipelineStageFromAccessFlags VK_ACCESS_INDEX_READ_BIT = Inr VK_PIPELINE_STAGE_VERTEX_INPUT_BIT \<and>
   PipelineStageFromAccessFlags VK_ACCESS_VERTEX_ATTRIBUTE_READ_BIT = Inr VK_PIPELINE_STAGE_VERTEX_INPUT_BIT \<and>
   PipelineStageFromAccessFlags VK_ACCESS_UNIFORM_READ_BIT =
     Inr (VK_PIPELINE_STAGE_VERTEX_SHADER_BIT OR
          VK_PIPELINE_STAGE_TESSELLATION_CONTROL_SHADER_BIT OR
          VK_PIPELINE_STAGE_TESSELLATION_EVALUATION_SHADER_BIT OR
          VK_PIPELINE_STAGE_GEOMETRY_SHADER_BIT OR
          VK_PIPELINE_STAGE_FRAGMENT_SHADER_BIT OR
          VK_PIPELINE_STAGE_COMPUTE_SHADER_BIT) \<and>
   PipelineStageFromAccessFlags VK_ACCESS_SHADER_READ_BIT =
     Inr (VK_PIPELINE_STAGE_VERTEX_SHADER_BIT OR
          VK_PIPELINE_STAGE_TESSELLATION_CONTROL_SHADER_BIT OR
          VK_PIPELINE_STAGE_TESSELLATION_EVALUATION_SHADER_BIT OR
          VK_PIPELINE_STAGE_GEOMETRY_SHADER_BIT OR
          VK_PIPELINE_STAGE_FRAGMENT_SHADER_BIT OR
          VK_PIPELINE_STAGE_COMPUTE_SHADER_BIT) \<and>
   PipelineStageFromAccessFlags VK_ACCESS_SHADER_WRITE_BIT =
     Inr (VK_PIPELINE_STAGE_VERTEX_SHADER_BIT OR
          VK_PIPELINE_STAGE_TESSELLATION_CONTROL_SHADER_BIT OR
          VK_PIPELINE_STAGE_TESSELLATION_EVALUATION_SHADER_BIT OR
          VK_PIPELINE_STAGE_GEOMETRY_SHADER_BIT OR
          VK_PIPELINE_STAGE_FRAGMENT_SHADER_BIT OR
          VK_PIPELINE_STAGE_COMPUTE_SHADER_BIT) \<and>
   PipelineStageFromAccessFlags VK_ACCESS_INPUT_ATTACHMENT_READ_BIT = Inr VK_PIPELINE_STAGE_FRAGMENT_SHADER_BIT \<and>
   PipelineStageFromAccessFlags VK_ACCESS_COLOR_ATTACHMENT_READ_BIT = Inr VK_PIPELINE_STAGE_COLOR_ATTACHMENT_OUTPUT_BIT \<and>
   PipelineStageFromAccessFlags VK_ACCESS_COLOR_ATTACHMENT_WRITE_BIT = Inr VK_PIPELINE_STAGE_COLOR_ATTACHMENT_OUTPUT_BIT \<and>
   PipelineStageFromAccessFlags VK_ACCESS_DEPTH_STENCIL_ATTACHMENT_READ_BIT =
     Inr (VK_PIPELINE_STAGE_EARLY_FRAGMENT_TESTS_BIT OR VK_PIPELINE_STAGE_LATE_FRAGMENT_TESTS_BIT) \<and>
   PipelineStageFromAccessFlags VK_ACCESS_DEPTH_STENCIL_ATTACHMENT_WRITE_BIT =
     Inr (VK_PIPELINE_STAGE_EARLY_FRAGMENT_TESTS_BIT OR VK_PIPELINE_STAGE_LATE_FRAGMENT_TESTS_BIT) \<and>
   PipelineStageFromAccessFlags VK_ACCESS_TRANSFER_READ_BIT = Inr VK_PIPELINE_STAGE_TRANSFER_BIT \<and>
   PipelineStageFromAccessFlags VK_ACCESS_TRANSFER_WRITE_BIT = Inr VK_PIPELINE_STAGE_TRANSFER_BIT \<and>
   PipelineStageFromAccessFlags VK_ACCESS_HOST_READ_BIT = Inr VK_PIPELINE_STAGE_HOST_BIT \<and>
   PipelineStageFromAccessFlags VK_ACCESS_HOST_WRITE_BIT = Inr VK_PIPELINE_STAGE_HOST_BIT \<and>
   PipelineStageFromAccessFlags VK_ACCESS_MEMORY_READ_BIT = Inr 0 \<and>
   PipelineStageFromAccessFlags VK_ACCESS_MEMORY_WRITE_BIT = Inr 0"
  by (intro conjI; simp add: mapper_eval)

text \<open>
  C3. \<open>PipelineStageFromAccessFlags\<close> maps the union of access masks to the union of stage
  masks. The empty mask gives the empty stage mask. For any two 32-bit masks the call on
  \<open>A OR B\<close> returns the union of the results on \<open>A\<close> and on \<open>B\<close>, and ends in the
  contract violation of the default branch when one of them does. For two masks made of
  bits of \<open>VkAccessFlagBits\<close> all three calls return normally.
\<close>

theorem PipelineStageFromAccessFlags_union:
  "PipelineStageFromAccessFlags 0 = Inr 0
   \<and> PipelineStageFromAccessFlags (A OR B) =
       (case PipelineStageFromAccessFlags A of
          Inl e \<Rightarrow> Inl e
        | Inr StagesA \<Rightarrow>
           (case PipelineStageFromAccessFlags B of
              Inl e \<Rightarrow> Inl e
            | Inr StagesB \<Rightarrow> Inr (StagesA OR StagesB)))
   \<and> (A AND NOT ALL_ACCESS_FLAG_BITS = 0 \<and> B AND NOT ALL_ACCESS_FLAG_BITS = 0 \<longrightarrow>
        (\<exists>StagesA StagesB.
           PipelineStageFromAccessFlags A = Inr StagesA \<and>
           PipelineStageFromAccessFlags B = Inr StagesB \<and>
           PipelineStageFromAccessFlags (A OR B) = Inr (StagesA OR StagesB)))"
proof (intro conjI impI)
  show "PipelineStageFromAccessFlags 0 = Inr 0"
    by (simp add: PipelineStageFromAccessFlags_def PipelineStage_loop.simps)
  show "PipelineStageFromAccessFlags (A OR B) =
       (case PipelineStageFromAccessFlags A of
          Inl e \<Rightarrow> Inl e
        | Inr StagesA \<Rightarrow>
           (case PipelineStageFromAccessFlags B of
              Inl e \<Rightarrow> Inl e
            | Inr StagesB \<Rightarrow> Inr (StagesA OR StagesB)))"
    by (simp add: PipelineStageFromAccessFlags_closed_form known_bits_union_iff
          stages_below_union)
next
  assume "A AND NOT ALL_ACCESS_FLAG_BITS = 0 \<and> B AND NOT ALL_ACCESS_FLAG_BITS = 0"
  then show "\<exists>StagesA StagesB.
        PipelineStageFromAccessFlags A = Inr StagesA \<and>
        PipelineStageFromAccessFlags B = Inr StagesB \<and>
        PipelineStageFromAccessFlags (A OR B) = Inr (StagesA OR StagesB)"
    by (simp add: PipelineStageFromAccessFlags_closed_form known_bits_union_iff
          stages_below_union)
qed

theorem PipelineStageFromAccessFlags_union_witness:
  "(0x120 :: 32 word) AND NOT ALL_ACCESS_FLAG_BITS = 0 \<and>
   (0x1020 :: 32 word) AND NOT ALL_ACCESS_FLAG_BITS = 0 \<and>
   PipelineStageFromAccessFlags 0x120 = Inr 0xCF8 \<and>
   PipelineStageFromAccessFlags 0x1020 = Inr 0x18F8 \<and>
   PipelineStageFromAccessFlags (0x120 OR 0x1020) = Inr (0xCF8 OR 0x18F8)"
proof -
  have k: "(0x120 :: 32 word) AND NOT ALL_ACCESS_FLAG_BITS = 0 \<and>
      (0x1020 :: 32 word) AND NOT ALL_ACCESS_FLAG_BITS = 0"
    by (simp add: ALL_ACCESS_FLAG_BITS_def VkAccessFlagBits_defs)
  have a: "PipelineStageFromAccessFlags 0x120 = Inr 0xCF8"
    and b: "PipelineStageFromAccessFlags 0x1020 = Inr 0x18F8"
    by (simp_all add: mapper_eval)
  from PipelineStageFromAccessFlags_union [of "0x120" "0x1020"] k a b show ?thesis
    by auto
qed

text \<open>
  C10. \<open>PipelineStageFromAccessFlags\<close> terminates on every 32-bit mask. The loop run with
  a budget of as many iterations as the mask has set bits, and so with a budget of 32,
  ends within the budget, with the result of the function. In each iteration on a mask
  that is not zero, \<open>AccessFlags AND NOT (AccessFlags - 1)\<close> is the lowest set bit of the
  mask and a single bit, and clearing it lowers the number of set bits by one.
\<close>

theorem PipelineStageFromAccessFlags_terminates:
  "set_bit_count A \<le> 32
   \<and> PipelineStage_loop_bounded (set_bit_count A) A 0 = Some (PipelineStageFromAccessFlags A)
   \<and> PipelineStage_loop_bounded 32 A 0 = Some (PipelineStageFromAccessFlags A)
   \<and> (A \<noteq> 0 \<longrightarrow>
        (\<exists>n<32. bit A n \<and> (\<forall>m<n. \<not> bit A m) \<and> A AND NOT (A - 1) = 2 ^ n)
        \<and> A AND NOT (A - 1) \<noteq> 0
        \<and> (A AND NOT (A - 1)) AND ((A AND NOT (A - 1)) - 1) = 0
        \<and> Suc (set_bit_count (A AND NOT (A AND NOT (A - 1)))) = set_bit_count A)"
proof (intro conjI impI)
  show "set_bit_count A \<le> 32"
    by (rule set_bit_count_le)
  show "PipelineStage_loop_bounded (set_bit_count A) A 0 = Some (PipelineStageFromAccessFlags A)"
    by (simp add: PipelineStage_loop_bounded_enough PipelineStageFromAccessFlags_def)
  show "PipelineStage_loop_bounded 32 A 0 = Some (PipelineStageFromAccessFlags A)"
    by (simp add: PipelineStage_loop_bounded_enough set_bit_count_le
          PipelineStageFromAccessFlags_def)
next
  assume "A \<noteq> 0"
  then obtain n where n: "n < 32" "bit A n" "\<And>m. m < n \<Longrightarrow> \<not> bit A m"
    "A AND NOT (A - 1) = 2 ^ n"
    using lowest_bit [of A] by auto
  then show "\<exists>n<32. bit A n \<and> (\<forall>m<n. \<not> bit A m) \<and> A AND NOT (A - 1) = 2 ^ n"
    by blast
  show "A AND NOT (A - 1) \<noteq> 0"
    using n(1) by (simp add: n(4))
  show "(A AND NOT (A - 1)) AND ((A AND NOT (A - 1)) - 1) = 0"
    unfolding n(4) using n(1) by (simp add: single_bit_word)
  show "Suc (set_bit_count (A AND NOT (A AND NOT (A - 1)))) = set_bit_count A"
    using set_bit_count_clear [OF n(2)] by (simp add: n(4))
qed

theorem PipelineStageFromAccessFlags_terminates_witness:
  "(6 :: 32 word) \<noteq> 0
   \<and> (6 AND NOT (6 - 1) :: 32 word) = 2
   \<and> Suc (set_bit_count (6 AND NOT 2)) = set_bit_count 6
   \<and> PipelineStage_loop_bounded 32 6 0 = Some (Inr VK_PIPELINE_STAGE_VERTEX_INPUT_BIT)"
proof -
  have "PipelineStageFromAccessFlags 6 = Inr VK_PIPELINE_STAGE_VERTEX_INPUT_BIT"
    by (simp add: mapper_eval)
  with PipelineStageFromAccessFlags_terminates [of 6] show ?thesis
    by simp
qed

section \<open>Properties of TransitionImageLayout\<close>

text \<open>
  C1 (the code evaluated at the input where the claim fails). With the old layout
  colour-attachment-optimal and the new layout depth-stencil-read-only-optimal, both
  stage masks zero, the recorded barrier has the source access mask
  depth/stencil-attachment-read, and its destination access mask and destination stage
  mask are zero: the case of this new layout assigns \<open>srcAccessMask\<close>. With the same old
  layout and the new layout transfer-source-optimal the source access mask is
  colour-attachment-write, so the source access mask depends on the new layout.
\<close>

theorem TransitionImageLayout_depth_stencil_read_only_target:
  "TransitionImageLayout empty_Recorder 1 7 1
     VK_IMAGE_LAYOUT_COLOR_ATTACHMENT_OPTIMAL VK_IMAGE_LAYOUT_DEPTH_STENCIL_READ_ONLY_OPTIMAL
     example_range 0 0 =
   Inr (vkCmdPipelineBarrier (empty_Recorder\<lparr>mapper_invocations := 2\<rparr>) 1
         (VK_PIPELINE_STAGE_EARLY_FRAGMENT_TESTS_BIT OR VK_PIPELINE_STAGE_LATE_FRAGMENT_TESTS_BIT)
         0 0 [] []
         [\<lparr>sType = VK_STRUCTURE_TYPE_IMAGE_MEMORY_BARRIER, pNext = 0,
           srcAccessMask = VK_ACCESS_DEPTH_STENCIL_ATTACHMENT_READ_BIT,
           dstAccessMask = 0,
           oldLayout = VK_IMAGE_LAYOUT_COLOR_ATTACHMENT_OPTIMAL,
           newLayout = VK_IMAGE_LAYOUT_DEPTH_STENCIL_READ_ONLY_OPTIMAL,
           srcQueueFamilyIndex = VK_QUEUE_FAMILY_IGNORED,
           dstQueueFamilyIndex = VK_QUEUE_FAMILY_IGNORED,
           image = 7, subresourceRange = example_range\<rparr>])
   \<and> TransitionImageLayout empty_Recorder 1 7 1
     VK_IMAGE_LAYOUT_COLOR_ATTACHMENT_OPTIMAL VK_IMAGE_LAYOUT_TRANSFER_SRC_OPTIMAL
     example_range 0 0 =
   Inr (vkCmdPipelineBarrier (empty_Recorder\<lparr>mapper_invocations := 2\<rparr>) 1
         VK_PIPELINE_STAGE_COLOR_ATTACHMENT_OUTPUT_BIT VK_PIPELINE_STAGE_TRANSFER_BIT
         0 [] []
         [\<lparr>sType = VK_STRUCTURE_TYPE_IMAGE_MEMORY_BARRIER, pNext = 0,
           srcAccessMask = VK_ACCESS_COLOR_ATTACHMENT_WRITE_BIT,
           dstAccessMask = VK_ACCESS_TRANSFER_READ_BIT,
           oldLayout = VK_IMAGE_LAYOUT_COLOR_ATTACHMENT_OPTIMAL,
           newLayout = VK_IMAGE_LAYOUT_TRANSFER_SRC_OPTIMAL,
           srcQueueFamilyIndex = VK_QUEUE_FAMILY_IGNORED,
           dstQueueFamilyIndex = VK_QUEUE_FAMILY_IGNORED,
           image = 7, subresourceRange = example_range\<rparr>])
   \<and> VK_ACCESS_DEPTH_STENCIL_ATTACHMENT_READ_BIT \<noteq> VK_ACCESS_COLOR_ATTACHMENT_WRITE_BIT"
  by (intro conjI; simp add: transition_eval mapper_eval empty_Recorder_def)

text \<open>
  C4. In a call of \<open>TransitionImageLayout\<close> that returns, the barrier \<open>b\<close> of the recorded
  command is the result of the two layout switches, and each stage mask of the command is
  the stage mask given by the caller when that is not zero, and otherwise the result of
  \<open>PipelineStageFromAccessFlags\<close> on the corresponding access mask of \<open>b\<close>.
  \<open>PipelineStageFromAccessFlags\<close> is called once for each stage mask that is zero: with
  both stage masks given not zero it is not called.
\<close>

theorem TransitionImageLayout_stage_hints:
  assumes "TransitionImageLayout s CmdBuffer Img AspectMask OldLayout NewLayout SubresRange
             SrcStages DestStages = Inr s'"
  shows "\<exists>cmd b b1.
           OldLayout_switch OldLayout
             (init_ImgBarrier Img AspectMask OldLayout NewLayout SubresRange) = Inr b1
         \<and> NewLayout_switch NewLayout b1 = Inr b
         \<and> recorded s' CmdBuffer = recorded s CmdBuffer @ [cmd]
         \<and> imageMemoryBarriers cmd = [b]
         \<and> Inr (srcStageMask cmd) =
              (if SrcStages = 0 then PipelineStageFromAccessFlags (srcAccessMask b)
               else Inr SrcStages)
         \<and> Inr (dstStageMask cmd) =
              (if DestStages = 0 then PipelineStageFromAccessFlags (dstAccessMask b)
               else Inr DestStages)
         \<and> mapper_invocations s' = mapper_invocations s
               + (if SrcStages = 0 then 1 else 0) + (if DestStages = 0 then 1 else 0)
         \<and> (SrcStages \<noteq> 0 \<and> DestStages \<noteq> 0 \<longrightarrow> mapper_invocations s' = mapper_invocations s)"
proof -
  from assms obtain b1 b s1 s2 S D
    where old: "OldLayout_switch OldLayout
                  (init_ImgBarrier Img AspectMask OldLayout NewLayout SubresRange) = Inr b1"
      and new: "NewLayout_switch NewLayout b1 = Inr b"
      and src: "stages_or_derived s SrcStages (srcAccessMask b) = Inr (s1, S)"
      and dst: "stages_or_derived s1 DestStages (dstAccessMask b) = Inr (s2, D)"
      and s': "s' = vkCmdPipelineBarrier s2 CmdBuffer S D 0 [] [] [b]"
    by (rule TransitionImageLayout_InrD)
  let ?cmd = "\<lparr>srcStageMask = S, dstStageMask = D, dependencyFlags = 0, memoryBarriers = [],
        bufferMemoryBarriers = [], imageMemoryBarriers = [b]\<rparr>"
  have rec: "recorded s2 = recorded s"
    using stages_or_derived_InrD(1) [OF src] stages_or_derived_InrD(1) [OF dst] by simp
  have r: "recorded s' CmdBuffer = recorded s CmdBuffer @ [?cmd]"
    by (simp add: s' vkCmdPipelineBarrier_def rec)
  have cnt: "mapper_invocations s' = mapper_invocations s2"
    by (simp add: s' vkCmdPipelineBarrier_def)
  have srcS: "SrcStages \<noteq> 0 \<longrightarrow> S = SrcStages \<and> s1 = s"
    and srcZ: "SrcStages = 0 \<longrightarrow> PipelineStageFromAccessFlags (srcAccessMask b) = Inr S
           \<and> mapper_invocations s1 = Suc (mapper_invocations s)"
    using stages_or_derived_InrD(2,3) [OF src] by blast+
  have dstS: "DestStages \<noteq> 0 \<longrightarrow> D = DestStages \<and> s2 = s1"
    and dstZ: "DestStages = 0 \<longrightarrow> PipelineStageFromAccessFlags (dstAccessMask b) = Inr D
           \<and> mapper_invocations s2 = Suc (mapper_invocations s1)"
    using stages_or_derived_InrD(2,3) [OF dst] by blast+
  have count: "mapper_invocations s' = mapper_invocations s
               + (if SrcStages = 0 then 1 else 0) + (if DestStages = 0 then 1 else 0)"
    using srcS srcZ dstS dstZ cnt by auto
  show ?thesis
    apply (rule exI [of _ ?cmd], rule exI [of _ b], rule exI [of _ b1])
    using old new r srcS srcZ dstS dstZ count by auto
qed

theorem TransitionImageLayout_stage_hints_witness:
  "TransitionImageLayout empty_Recorder 1 7 1
      VK_IMAGE_LAYOUT_UNDEFINED VK_IMAGE_LAYOUT_COLOR_ATTACHMENT_OPTIMAL example_range
      1 VK_PIPELINE_STAGE_COLOR_ATTACHMENT_OUTPUT_BIT =
    Inr (vkCmdPipelineBarrier empty_Recorder 1 1 VK_PIPELINE_STAGE_COLOR_ATTACHMENT_OUTPUT_BIT
          0 [] []
          [\<lparr>sType = VK_STRUCTURE_TYPE_IMAGE_MEMORY_BARRIER, pNext = 0,
            srcAccessMask = 0, dstAccessMask = VK_ACCESS_COLOR_ATTACHMENT_WRITE_BIT,
            oldLayout = VK_IMAGE_LAYOUT_UNDEFINED,
            newLayout = VK_IMAGE_LAYOUT_COLOR_ATTACHMENT_OPTIMAL,
            srcQueueFamilyIndex = VK_QUEUE_FAMILY_IGNORED,
            dstQueueFamilyIndex = VK_QUEUE_FAMILY_IGNORED,
            image = 7, subresourceRange = example_range\<rparr>])
   \<and> (1 :: 32 word) \<noteq> 0 \<and> VK_PIPELINE_STAGE_COLOR_ATTACHMENT_OUTPUT_BIT \<noteq> 0
   \<and> mapper_invocations (vkCmdPipelineBarrier empty_Recorder 1 1
          VK_PIPELINE_STAGE_COLOR_ATTACHMENT_OUTPUT_BIT 0 [] []
          [\<lparr>sType = VK_STRUCTURE_TYPE_IMAGE_MEMORY_BARRIER, pNext = 0,
            srcAccessMask = 0, dstAccessMask = VK_ACCESS_COLOR_ATTACHMENT_WRITE_BIT,
            oldLayout = VK_IMAGE_LAYOUT_UNDEFINED,
            newLayout = VK_IMAGE_LAYOUT_COLOR_ATTACHMENT_OPTIMAL,
            srcQueueFamilyIndex = VK_QUEUE_FAMILY_IGNORED,
            dstQueueFamilyIndex = VK_QUEUE_FAMILY_IGNORED,
            image = 7, subresourceRange = example_range\<rparr>])
       = mapper_invocations empty_Recorder
   \<and> TransitionImageLayout empty_Recorder 1 7 1
      VK_IMAGE_LAYOUT_PREINITIALIZED VK_IMAGE_LAYOUT_TRANSFER_SRC_OPTIMAL example_range 0 0 =
    Inr (vkCmdPipelineBarrier (empty_Recorder\<lparr>mapper_invocations := 2\<rparr>) 1
          VK_PIPELINE_STAGE_HOST_BIT VK_PIPELINE_STAGE_TRANSFER_BIT 0 [] []
          [\<lparr>sType = VK_STRUCTURE_TYPE_IMAGE_MEMORY_BARRIER, pNext = 0,
            srcAccessMask = VK_ACCESS_HOST_WRITE_BIT,
            dstAccessMask = VK_ACCESS_TRANSFER_READ_BIT,
            oldLayout = VK_IMAGE_LAYOUT_PREINITIALIZED,
            newLayout = VK_IMAGE_LAYOUT_TRANSFER_SRC_OPTIMAL,
            srcQueueFamilyIndex = VK_QUEUE_FAMILY_IGNORED,
            dstQueueFamilyIndex = VK_QUEUE_FAMILY_IGNORED,
            image = 7, subresourceRange = example_range\<rparr>])
   \<and> mapper_invocations (vkCmdPipelineBarrier (empty_Recorder\<lparr>mapper_invocations := 2\<rparr>) 1
          VK_PIPELINE_STAGE_HOST_BIT VK_PIPELINE_STAGE_TRANSFER_BIT 0 [] []
          [\<lparr>sType = VK_STRUCTURE_TYPE_IMAGE_MEMORY_BARRIER, pNext = 0,
            srcAccessMask = VK_ACCESS_HOST_WRITE_BIT,
            dstAccessMask = VK_ACCESS_TRANSFER_READ_BIT,
            oldLayout = VK_IMAGE_LAYOUT_PREINITIALIZED,
            newLayout = VK_IMAGE_LAYOUT_TRANSFER_SRC_OPTIMAL,
            srcQueueFamilyIndex = VK_QUEUE_FAMILY_IGNORED,
            dstQueueFamilyIndex = VK_QUEUE_FAMILY_IGNORED,
            image = 7, subresourceRange = example_range\<rparr>])
       = mapper_invocations empty_Recorder + 2"
proof -
  have nz: "(1 :: 32 word) \<noteq> 0 \<and> VK_PIPELINE_STAGE_COLOR_ATTACHMENT_OUTPUT_BIT \<noteq> 0"
    by (simp add: VkPipelineStageFlagBits_defs)
  have ev1: "TransitionImageLayout empty_Recorder 1 7 1
      VK_IMAGE_LAYOUT_UNDEFINED VK_IMAGE_LAYOUT_COLOR_ATTACHMENT_OPTIMAL example_range
      1 VK_PIPELINE_STAGE_COLOR_ATTACHMENT_OUTPUT_BIT =
    Inr (vkCmdPipelineBarrier empty_Recorder 1 1 VK_PIPELINE_STAGE_COLOR_ATTACHMENT_OUTPUT_BIT
          0 [] []
          [\<lparr>sType = VK_STRUCTURE_TYPE_IMAGE_MEMORY_BARRIER, pNext = 0,
            srcAccessMask = 0, dstAccessMask = VK_ACCESS_COLOR_ATTACHMENT_WRITE_BIT,
            oldLayout = VK_IMAGE_LAYOUT_UNDEFINED,
            newLayout = VK_IMAGE_LAYOUT_COLOR_ATTACHMENT_OPTIMAL,
            srcQueueFamilyIndex = VK_QUEUE_FAMILY_IGNORED,
            dstQueueFamilyIndex = VK_QUEUE_FAMILY_IGNORED,
            image = 7, subresourceRange = example_range\<rparr>])"
    by (simp add: transition_eval mapper_eval empty_Recorder_def)
  have ev2: "TransitionImageLayout empty_Recorder 1 7 1
      VK_IMAGE_LAYOUT_PREINITIALIZED VK_IMAGE_LAYOUT_TRANSFER_SRC_OPTIMAL example_range 0 0 =
    Inr (vkCmdPipelineBarrier (empty_Recorder\<lparr>mapper_invocations := 2\<rparr>) 1
          VK_PIPELINE_STAGE_HOST_BIT VK_PIPELINE_STAGE_TRANSFER_BIT 0 [] []
          [\<lparr>sType = VK_STRUCTURE_TYPE_IMAGE_MEMORY_BARRIER, pNext = 0,
            srcAccessMask = VK_ACCESS_HOST_WRITE_BIT,
            dstAccessMask = VK_ACCESS_TRANSFER_READ_BIT,
            oldLayout = VK_IMAGE_LAYOUT_PREINITIALIZED,
            newLayout = VK_IMAGE_LAYOUT_TRANSFER_SRC_OPTIMAL,
            srcQueueFamilyIndex = VK_QUEUE_FAMILY_IGNORED,
            dstQueueFamilyIndex = VK_QUEUE_FAMILY_IGNORED,
            image = 7, subresourceRange = example_range\<rparr>])"
    by (simp add: transition_eval mapper_eval empty_Recorder_def)
  from TransitionImageLayout_stage_hints [OF ev1] nz
  have c1: "mapper_invocations (vkCmdPipelineBarrier empty_Recorder 1 1
          VK_PIPELINE_STAGE_COLOR_ATTACHMENT_OUTPUT_BIT 0 [] []
          [\<lparr>sType = VK_STRUCTURE_TYPE_IMAGE_MEMORY_BARRIER, pNext = 0,
            srcAccessMask = 0, dstAccessMask = VK_ACCESS_COLOR_ATTACHMENT_WRITE_BIT,
            oldLayout = VK_IMAGE_LAYOUT_UNDEFINED,
            newLayout = VK_IMAGE_LAYOUT_COLOR_ATTACHMENT_OPTIMAL,
            srcQueueFamilyIndex = VK_QUEUE_FAMILY_IGNORED,
            dstQueueFamilyIndex = VK_QUEUE_FAMILY_IGNORED,
            image = 7, subresourceRange = example_range\<rparr>])
       = mapper_invocations empty_Recorder"
    by blast
  from TransitionImageLayout_stage_hints [OF ev2]
  have c2: "mapper_invocations (vkCmdPipelineBarrier (empty_Recorder\<lparr>mapper_invocations := 2\<rparr>) 1
          VK_PIPELINE_STAGE_HOST_BIT VK_PIPELINE_STAGE_TRANSFER_BIT 0 [] []
          [\<lparr>sType = VK_STRUCTURE_TYPE_IMAGE_MEMORY_BARRIER, pNext = 0,
            srcAccessMask = VK_ACCESS_HOST_WRITE_BIT,
            dstAccessMask = VK_ACCESS_TRANSFER_READ_BIT,
            oldLayout = VK_IMAGE_LAYOUT_PREINITIALIZED,
            newLayout = VK_IMAGE_LAYOUT_TRANSFER_SRC_OPTIMAL,
            srcQueueFamilyIndex = VK_QUEUE_FAMILY_IGNORED,
            dstQueueFamilyIndex = VK_QUEUE_FAMILY_IGNORED,
            image = 7, subresourceRange = example_range\<rparr>])
       = mapper_invocations empty_Recorder + (if (0::32 word) = 0 then 1 else 0)
           + (if (0::32 word) = 0 then 1 else 0)"
    by blast
  from ev1 nz c1 ev2 c2 show ?thesis
    by simp
qed

text \<open>
  C5. A call of \<open>TransitionImageLayout\<close> that returns has appended exactly one
  pipeline-barrier command to the given command buffer and left every other command
  buffer as it was. The command has no memory barrier, no buffer barrier and exactly one
  image barrier, whose layouts, subresource range and image are the arguments of the call
  and whose two queue family indices are \<open>VK_QUEUE_FAMILY_IGNORED\<close>.
\<close>

theorem TransitionImageLayout_records_one_barrier:
  assumes "TransitionImageLayout s CmdBuffer Img AspectMask OldLayout NewLayout SubresRange
             SrcStages DestStages = Inr s'"
  shows "\<exists>cmd b. recorded s' = (recorded s)(CmdBuffer := recorded s CmdBuffer @ [cmd])
           \<and> memoryBarriers cmd = [] \<and> bufferMemoryBarriers cmd = []
           \<and> imageMemoryBarriers cmd = [b]
           \<and> oldLayout b = OldLayout \<and> newLayout b = NewLayout
           \<and> subresourceRange b = SubresRange \<and> image b = Img
           \<and> srcQueueFamilyIndex b = VK_QUEUE_FAMILY_IGNORED
           \<and> dstQueueFamilyIndex b = VK_QUEUE_FAMILY_IGNORED"
proof -
  from assms obtain b1 b s1 s2 S D
    where old: "OldLayout_switch OldLayout
                  (init_ImgBarrier Img AspectMask OldLayout NewLayout SubresRange) = Inr b1"
      and new: "NewLayout_switch NewLayout b1 = Inr b"
      and src: "stages_or_derived s SrcStages (srcAccessMask b) = Inr (s1, S)"
      and dst: "stages_or_derived s1 DestStages (dstAccessMask b) = Inr (s2, D)"
      and s': "s' = vkCmdPipelineBarrier s2 CmdBuffer S D 0 [] [] [b]"
    by (rule TransitionImageLayout_InrD)
  have rec: "recorded s2 = recorded s"
    using stages_or_derived_InrD(1) [OF src] stages_or_derived_InrD(1) [OF dst] by simp
  have "recorded s' = (recorded s)(CmdBuffer := recorded s CmdBuffer @
      [\<lparr>srcStageMask = S, dstStageMask = D, dependencyFlags = 0, memoryBarriers = [],
        bufferMemoryBarriers = [], imageMemoryBarriers = [b]\<rparr>])"
    by (simp add: s' vkCmdPipelineBarrier_def rec)
  moreover have "oldLayout b = OldLayout" "newLayout b = NewLayout"
    "subresourceRange b = SubresRange" "image b = Img"
    "srcQueueFamilyIndex b = VK_QUEUE_FAMILY_IGNORED"
    "dstQueueFamilyIndex b = VK_QUEUE_FAMILY_IGNORED"
    by (simp_all add: NewLayout_switch_frame [OF new] OldLayout_switch_frame [OF old]
          init_ImgBarrier_fields)
  ultimately show ?thesis
    by (intro exI [of _ "\<lparr>srcStageMask = S, dstStageMask = D, dependencyFlags = 0,
          memoryBarriers = [], bufferMemoryBarriers = [], imageMemoryBarriers = [b]\<rparr>"]
        exI [of _ b]) simp
qed

text \<open>
  C6. A call of \<open>TransitionImageLayout\<close> whose new layout is undefined, preinitialized or
  general, or whose old layout is general, ends in a contract violation: it returns no
  recorder, so no barrier is recorded. With a command buffer that is not the null handle
  the violation is the \<open>UNEXPECTED\<close> of one of the two switches.
\<close>

theorem TransitionImageLayout_records_one_barrier_witness:
  "TransitionImageLayout empty_Recorder 1 7 1
      VK_IMAGE_LAYOUT_PRESENT_SRC_KHR VK_IMAGE_LAYOUT_COLOR_ATTACHMENT_OPTIMAL example_range
      VK_PIPELINE_STAGE_TRANSFER_BIT 0 =
    Inr (vkCmdPipelineBarrier (empty_Recorder\<lparr>mapper_invocations := 1\<rparr>) 1
          VK_PIPELINE_STAGE_TRANSFER_BIT VK_PIPELINE_STAGE_COLOR_ATTACHMENT_OUTPUT_BIT
          0 [] []
          [\<lparr>sType = VK_STRUCTURE_TYPE_IMAGE_MEMORY_BARRIER, pNext = 0,
            srcAccessMask = VK_ACCESS_MEMORY_READ_BIT,
            dstAccessMask = VK_ACCESS_COLOR_ATTACHMENT_WRITE_BIT,
            oldLayout = VK_IMAGE_LAYOUT_PRESENT_SRC_KHR,
            newLayout = VK_IMAGE_LAYOUT_COLOR_ATTACHMENT_OPTIMAL,
            srcQueueFamilyIndex = VK_QUEUE_FAMILY_IGNORED,
            dstQueueFamilyIndex = VK_QUEUE_FAMILY_IGNORED,
            image = 7, subresourceRange = example_range\<rparr>])
   \<and> (\<exists>cmd. recorded (vkCmdPipelineBarrier (empty_Recorder\<lparr>mapper_invocations := 1\<rparr>) 1
          VK_PIPELINE_STAGE_TRANSFER_BIT VK_PIPELINE_STAGE_COLOR_ATTACHMENT_OUTPUT_BIT
          0 [] []
          [\<lparr>sType = VK_STRUCTURE_TYPE_IMAGE_MEMORY_BARRIER, pNext = 0,
            srcAccessMask = VK_ACCESS_MEMORY_READ_BIT,
            dstAccessMask = VK_ACCESS_COLOR_ATTACHMENT_WRITE_BIT,
            oldLayout = VK_IMAGE_LAYOUT_PRESENT_SRC_KHR,
            newLayout = VK_IMAGE_LAYOUT_COLOR_ATTACHMENT_OPTIMAL,
            srcQueueFamilyIndex = VK_QUEUE_FAMILY_IGNORED,
            dstQueueFamilyIndex = VK_QUEUE_FAMILY_IGNORED,
            image = 7, subresourceRange = example_range\<rparr>])
        = (recorded empty_Recorder)(1 := recorded empty_Recorder 1 @ [cmd])
      \<and> memoryBarriers cmd = [] \<and> bufferMemoryBarriers cmd = []
      \<and> length (imageMemoryBarriers cmd) = 1)"
proof -
  have ev: "TransitionImageLayout empty_Recorder 1 7 1
      VK_IMAGE_LAYOUT_PRESENT_SRC_KHR VK_IMAGE_LAYOUT_COLOR_ATTACHMENT_OPTIMAL example_range
      VK_PIPELINE_STAGE_TRANSFER_BIT 0 =
    Inr (vkCmdPipelineBarrier (empty_Recorder\<lparr>mapper_invocations := 1\<rparr>) 1
          VK_PIPELINE_STAGE_TRANSFER_BIT VK_PIPELINE_STAGE_COLOR_ATTACHMENT_OUTPUT_BIT
          0 [] []
          [\<lparr>sType = VK_STRUCTURE_TYPE_IMAGE_MEMORY_BARRIER, pNext = 0,
            srcAccessMask = VK_ACCESS_MEMORY_READ_BIT,
            dstAccessMask = VK_ACCESS_COLOR_ATTACHMENT_WRITE_BIT,
            oldLayout = VK_IMAGE_LAYOUT_PRESENT_SRC_KHR,
            newLayout = VK_IMAGE_LAYOUT_COLOR_ATTACHMENT_OPTIMAL,
            srcQueueFamilyIndex = VK_QUEUE_FAMILY_IGNORED,
            dstQueueFamilyIndex = VK_QUEUE_FAMILY_IGNORED,
            image = 7, subresourceRange = example_range\<rparr>])"
    by (simp add: transition_eval mapper_eval empty_Recorder_def)
  from TransitionImageLayout_records_one_barrier [OF ev] obtain cmd b
    where "recorded (vkCmdPipelineBarrier (empty_Recorder\<lparr>mapper_invocations := 1\<rparr>) 1
          VK_PIPELINE_STAGE_TRANSFER_BIT VK_PIPELINE_STAGE_COLOR_ATTACHMENT_OUTPUT_BIT
          0 [] []
          [\<lparr>sType = VK_STRUCTURE_TYPE_IMAGE_MEMORY_BARRIER, pNext = 0,
            srcAccessMask = VK_ACCESS_MEMORY_READ_BIT,
            dstAccessMask = VK_ACCESS_COLOR_ATTACHMENT_WRITE_BIT,
            oldLayout = VK_IMAGE_LAYOUT_PRESENT_SRC_KHR,
            newLayout = VK_IMAGE_LAYOUT_COLOR_ATTACHMENT_OPTIMAL,
            srcQueueFamilyIndex = VK_QUEUE_FAMILY_IGNORED,
            dstQueueFamilyIndex = VK_QUEUE_FAMILY_IGNORED,
            image = 7, subresourceRange = example_range\<rparr>])
        = (recorded empty_Recorder)(1 := recorded empty_Recorder 1 @ [cmd])"
      and "memoryBarriers cmd = []" and "bufferMemoryBarriers cmd = []"
      and "imageMemoryBarriers cmd = [b]"
    by blast
  then have "\<exists>cmd. recorded (vkCmdPipelineBarrier (empty_Recorder\<lparr>mapper_invocations := 1\<rparr>) 1
          VK_PIPELINE_STAGE_TRANSFER_BIT VK_PIPELINE_STAGE_COLOR_ATTACHMENT_OUTPUT_BIT
          0 [] []
          [\<lparr>sType = VK_STRUCTURE_TYPE_IMAGE_MEMORY_BARRIER, pNext = 0,
            srcAccessMask = VK_ACCESS_MEMORY_READ_BIT,
            dstAccessMask = VK_ACCESS_COLOR_ATTACHMENT_WRITE_BIT,
            oldLayout = VK_IMAGE_LAYOUT_PRESENT_SRC_KHR,
            newLayout = VK_IMAGE_LAYOUT_COLOR_ATTACHMENT_OPTIMAL,
            srcQueueFamilyIndex = VK_QUEUE_FAMILY_IGNORED,
            dstQueueFamilyIndex = VK_QUEUE_FAMILY_IGNORED,
            image = 7, subresourceRange = example_range\<rparr>])
        = (recorded empty_Recorder)(1 := recorded empty_Recorder 1 @ [cmd])
      \<and> memoryBarriers cmd = [] \<and> bufferMemoryBarriers cmd = []
      \<and> length (imageMemoryBarriers cmd) = 1"
    by (intro exI [of _ cmd]) simp
  with ev show ?thesis
    by (rule conjI)
qed

theorem TransitionImageLayout_rejected_layouts:
  assumes "NewLayout = VK_IMAGE_LAYOUT_UNDEFINED \<or> NewLayout = VK_IMAGE_LAYOUT_PREINITIALIZED
           \<or> OldLayout = VK_IMAGE_LAYOUT_GENERAL \<or> NewLayout = VK_IMAGE_LAYOUT_GENERAL"
  shows "\<exists>e. TransitionImageLayout s CmdBuffer Img AspectMask OldLayout NewLayout SubresRange
               SrcStages DestStages = Inl e
             \<and> (CmdBuffer \<noteq> VK_NULL_HANDLE \<longrightarrow> (\<exists>Message. e = Unexpected Message))"
proof -
  have old: "(\<exists>b'. OldLayout_switch OldLayout b = Inr b')
             \<or> (\<exists>m. OldLayout_switch OldLayout b = Inl (Unexpected m))" for b
    by (cases OldLayout) (simp_all add: UNEXPECTED_def)
  have "\<exists>m. OldLayout_switch OldLayout b = Inl (Unexpected m)
          \<or> (\<exists>b'. OldLayout_switch OldLayout b = Inr b'
                \<and> NewLayout_switch NewLayout b' = Inl (Unexpected m))" for b
    using assms old [of b] by (auto simp: UNEXPECTED_def)
  from this [of "init_ImgBarrier Img AspectMask OldLayout NewLayout SubresRange"]
  obtain m where "OldLayout_switch OldLayout
        (init_ImgBarrier Img AspectMask OldLayout NewLayout SubresRange) = Inl (Unexpected m)
      \<or> (\<exists>b'. OldLayout_switch OldLayout
            (init_ImgBarrier Img AspectMask OldLayout NewLayout SubresRange) = Inr b'
            \<and> NewLayout_switch NewLayout b' = Inl (Unexpected m))"
    by blast
  then show ?thesis
    by (cases "CmdBuffer = VK_NULL_HANDLE")
       (auto simp: TransitionImageLayout_def VERIFY_EXPR_def)
qed

text \<open>
  C7. Scenario A: from shader-read-only-optimal to transfer-destination-optimal with both
  stage masks zero, the call records one barrier with source access mask shader-read,
  destination access mask transfer-write, source stage mask all graphics shader stages
  together with the compute shader stage, and destination stage mask transfer.
\<close>

theorem TransitionImageLayout_rejected_layouts_witness:
  "(VK_IMAGE_LAYOUT_PREINITIALIZED = VK_IMAGE_LAYOUT_UNDEFINED
      \<or> VK_IMAGE_LAYOUT_PREINITIALIZED = VK_IMAGE_LAYOUT_PREINITIALIZED
      \<or> VK_IMAGE_LAYOUT_TRANSFER_SRC_OPTIMAL = VK_IMAGE_LAYOUT_GENERAL
      \<or> VK_IMAGE_LAYOUT_PREINITIALIZED = VK_IMAGE_LAYOUT_GENERAL)
   \<and> (\<exists>Message. TransitionImageLayout empty_Recorder 1 7 1
          VK_IMAGE_LAYOUT_TRANSFER_SRC_OPTIMAL VK_IMAGE_LAYOUT_PREINITIALIZED example_range 0 0
        = Inl (Unexpected Message))"
  using TransitionImageLayout_rejected_layouts [of VK_IMAGE_LAYOUT_PREINITIALIZED
      VK_IMAGE_LAYOUT_TRANSFER_SRC_OPTIMAL empty_Recorder 1 7 1 example_range 0 0]
  by (auto simp: VK_NULL_HANDLE_def)

theorem TransitionImageLayout_scenario_A:
  assumes "CmdBuffer \<noteq> VK_NULL_HANDLE"
  shows "TransitionImageLayout s CmdBuffer Img AspectMask
           VK_IMAGE_LAYOUT_SHADER_READ_ONLY_OPTIMAL VK_IMAGE_LAYOUT_TRANSFER_DST_OPTIMAL
           SubresRange 0 0 =
         Inr (vkCmdPipelineBarrier (s\<lparr>mapper_invocations := mapper_invocations s + 2\<rparr>) CmdBuffer
           (ALL_GRAPHICS_SHADER_STAGES_BITS OR VK_PIPELINE_STAGE_COMPUTE_SHADER_BIT)
           VK_PIPELINE_STAGE_TRANSFER_BIT 0 [] []
           [\<lparr>sType = VK_STRUCTURE_TYPE_IMAGE_MEMORY_BARRIER, pNext = 0,
             srcAccessMask = VK_ACCESS_SHADER_READ_BIT,
             dstAccessMask = VK_ACCESS_TRANSFER_WRITE_BIT,
             oldLayout = VK_IMAGE_LAYOUT_SHADER_READ_ONLY_OPTIMAL,
             newLayout = VK_IMAGE_LAYOUT_TRANSFER_DST_OPTIMAL,
             srcQueueFamilyIndex = VK_QUEUE_FAMILY_IGNORED,
             dstQueueFamilyIndex = VK_QUEUE_FAMILY_IGNORED,
             image = Img, subresourceRange = SubresRange\<rparr>])"
  using assms by (simp add: transition_eval mapper_eval)

theorem TransitionImageLayout_scenario_A_witness:
  "(1 :: 64 word) \<noteq> VK_NULL_HANDLE \<and>
   (case TransitionImageLayout empty_Recorder 1 7 1
           VK_IMAGE_LAYOUT_SHADER_READ_ONLY_OPTIMAL VK_IMAGE_LAYOUT_TRANSFER_DST_OPTIMAL
           example_range 0 0 of Inl e \<Rightarrow> [] | Inr s' \<Rightarrow> 
       map (\<lambda>c. (srcStageMask c, dstStageMask c, map (\<lambda>b. (srcAccessMask b, dstAccessMask b)) (imageMemoryBarriers c))) (recorded s' 1))
      = [(0x8F8, 0x1000, [(0x20, 0x1000)])]"
  using TransitionImageLayout_scenario_A [of 1 empty_Recorder 7 1 example_range]
  by (simp add: VK_NULL_HANDLE_def vkCmdPipelineBarrier_def mapper_eval empty_Recorder_def)

text \<open>
  C9. The argument \<open>AspectMask\<close> has no effect: two calls that differ in it alone have the
  same result, since the assignment of the whole subresource range follows the
  assignment of its aspect mask.
\<close>

theorem TransitionImageLayout_AspectMask_ignored:
  "TransitionImageLayout s CmdBuffer Img AspectMask OldLayout NewLayout SubresRange
     SrcStages DestStages =
   TransitionImageLayout s CmdBuffer Img AspectMask' OldLayout NewLayout SubresRange
     SrcStages DestStages"
proof -
  have eq: "init_ImgBarrier Img AspectMask OldLayout NewLayout SubresRange =
        init_ImgBarrier Img AspectMask' OldLayout NewLayout SubresRange"
    by (simp add: init_ImgBarrier_def Let_def)
  show ?thesis
    unfolding TransitionImageLayout_def eq by (rule refl)
qed

section \<open>Properties of FlushBarriers\<close>

text \<open>
  C8. \<open>FlushBarriers\<close> is a no-op: it returns normally, with the recorder unchanged, so it
  records no command in any command buffer.
\<close>

theorem FlushBarriers_noop: "FlushBarriers s = Inr s"
  by (simp add: FlushBarriers_def)

end
